theory Spec2Isabelle
  imports
    Complex_Main
    "HOL-Library.AList"
    "HOL-Library.Char_ord"
    "HOL-Library.List_Lexorder"
    "HOL-Library.Multiset"
    "HOL-Library.Product_Lexorder"
begin

section \<open>Bike Taxi API: the ride lifecycle and driver directory of main.py\<close>

text \<open>
  The handlers of \<^verbatim>\<open>main.py\<close> read and write three MongoDB collections
  (\<^verbatim>\<open>user\<close>, \<^verbatim>\<open>ride\<close>, \<^verbatim>\<open>driverstatus\<close>) through the global handle
  \<^verbatim>\<open>db\<close>. A document is a Python dict, modelled as an association list in
  insertion order; a collection is the list of its documents in the store's natural
  order; the database maps a collection name to its collection; the handle is an
  option (\<^verbatim>\<open>db is None\<close> when no store is configured). Every handler takes the handle
  and returns its outcome together with the handle after the call. The clock
  (\<^verbatim>\<open>datetime.utcnow()\<close>) and the identifier the store generates on an insert are
  arguments of the handlers that use them.
\<close>

subsection \<open>Identifiers: bson.ObjectId\<close>

text \<open>
  An ObjectId is a sequence of bytes, represented by its lower-case hexadecimal
  rendering, which is what \<^verbatim>\<open>str(oid)\<close> returns.
\<close>

datatype objectid = Oid string

fun str_oid :: "objectid \<Rightarrow> string" where
  "str_oid (Oid h) = h"

definition hexdigit :: "char \<Rightarrow> bool" where
  "hexdigit c = (c \<in> set ''0123456789abcdefABCDEF'')"

definition ascii_space :: "char \<Rightarrow> bool" where
  "ascii_space c = (c \<in> set [CHR '' '', CHR 0x09, CHR 0x0A, CHR 0x0B, CHR 0x0C, CHR 0x0D])"

definition lower :: "char \<Rightarrow> char" where
  "lower c =
     (if c = CHR ''A'' then CHR ''a'' else if c = CHR ''B'' then CHR ''b''
      else if c = CHR ''C'' then CHR ''c'' else if c = CHR ''D'' then CHR ''d''
      else if c = CHR ''E'' then CHR ''e'' else if c = CHR ''F'' then CHR ''f'' else c)"

text \<open>
  \<^verbatim>\<open>bytes.fromhex\<close>: ASCII whitespace is skipped before each byte, and each byte is
  two hexadecimal digits; anything else raises \<^verbatim>\<open>ValueError\<close> (here \<open>None\<close>).
\<close>

fun fromhex :: "string \<Rightarrow> string option" where
  "fromhex [] = Some []"
| "fromhex [c] = (if ascii_space c then Some [] else None)"
| "fromhex (c # c' # cs) =
     (if ascii_space c then fromhex (c' # cs)
      else if hexdigit c \<and> hexdigit c' then
        (case fromhex cs of None \<Rightarrow> None | Some h \<Rightarrow> Some (lower c # lower c' # h))
      else None)"

text \<open>
  \<^verbatim>\<open>ObjectId(s)\<close> for a string \<open>s\<close>: the string must have 24 characters and be
  accepted by \<^verbatim>\<open>bytes.fromhex\<close>; otherwise \<^verbatim>\<open>InvalidId\<close> is raised (here \<open>None\<close>).
\<close>

definition ObjectId :: "string \<Rightarrow> objectid option" where
  "ObjectId s = (if length s = 24 then map_option Oid (fromhex s) else None)"

subsection \<open>Documents, filters and collections\<close>

datatype val =
    Null
  | Bool bool
  | Str string
  | Float real
  | ObjId objectid
  | Datetime int

type_synonym doc = "(string \<times> val) list"
type_synonym collection = "doc list"
type_synonym database = "string \<Rightarrow> collection"

text \<open>
  An equality filter \<^verbatim>\<open>{k1: v1, ...}\<close>: every listed field must hold the listed
  value; a \<^verbatim>\<open>null\<close> in the filter also matches a document without the field.
\<close>

definition matches :: "doc \<Rightarrow> doc \<Rightarrow> bool" where
  "matches q d =
     list_all (\<lambda>(k, v). map_of d k = Some v \<or> (v = Null \<and> map_of d k = None)) q"

text \<open>\<^verbatim>\<open>collection.find(q)\<close>: the matching documents, in the store's natural order.\<close>

definition find_cursor :: "collection \<Rightarrow> doc \<Rightarrow> doc list" where
  "find_cursor c q = filter (matches q) c"

definition find_one :: "collection \<Rightarrow> doc \<Rightarrow> doc option" where
  "find_one c q = (case find_cursor c q of [] \<Rightarrow> None | d # _ \<Rightarrow> Some d)"

text \<open>The \<^verbatim>\<open>$set\<close> operator: each listed field is overwritten or added.\<close>

fun set_fields :: "doc \<Rightarrow> doc \<Rightarrow> doc" where
  "set_fields [] d = d"
| "set_fields ((k, v) # upd) d = set_fields upd (AList.update k v d)"

text \<open>
  \<^verbatim>\<open>update_one(q, {"$set": upd})\<close>: the first document that matches \<open>q\<close> is
  updated; the result carries the collection and \<^verbatim>\<open>matched_count\<close>.
\<close>

fun update_one :: "collection \<Rightarrow> doc \<Rightarrow> doc \<Rightarrow> collection \<times> nat" where
  "update_one [] q upd = ([], 0)"
| "update_one (d # ds) q upd =
     (if matches q d then (set_fields upd d # ds, 1)
      else (case update_one ds q upd of (ds', n) \<Rightarrow> (d # ds', n)))"

text \<open>
  The BSON comparison order used by \<^verbatim>\<open>sort\<close>: values are ordered by type first
  (null and missing, then numbers, strings, ObjectIds, booleans, dates) and by value
  within a type.
\<close>

fun bson_key :: "val option \<Rightarrow> nat \<times> real \<times> string" where
  "bson_key None = (0, 0, [])"
| "bson_key (Some Null) = (0, 0, [])"
| "bson_key (Some (Float r)) = (1, r, [])"
| "bson_key (Some (Str s)) = (2, 0, s)"
| "bson_key (Some (ObjId i)) = (3, 0, str_oid i)"
| "bson_key (Some (Bool b)) = (4, (if b then 1 else 0), [])"
| "bson_key (Some (Datetime t)) = (5, of_int t, [])"

text \<open>
  \<^verbatim>\<open>cursor.sort(field, -1)\<close>: descending by the field; the order among documents
  with equal keys is the store's choice (here: the reverse of a stable ascending sort).
\<close>

definition sort_desc :: "string \<Rightarrow> doc list \<Rightarrow> doc list" where
  "sort_desc field ds = rev (sort_key (\<lambda>d. bson_key (map_of d field)) ds)"

definition limit :: "nat \<Rightarrow> doc list \<Rightarrow> doc list" where
  "limit n ds = take n ds"

subsection \<open>Outcomes\<close>

text \<open>
  A handler either returns its response or raises. \<open>HTTPException code detail\<close> is
  the exception the handlers raise themselves; \<open>KeyError\<close> and \<open>TypeError\<close> are
  Python's own, for a subscript on a missing key or on \<^verbatim>\<open>None\<close>.
\<close>

datatype exn = HTTPException nat string | KeyError string | TypeError

abbreviation StoreUnavailable :: exn where
  "StoreUnavailable \<equiv> HTTPException 500 ''Database not configured''"

abbreviation InvalidId :: exn where
  "InvalidId \<equiv> HTTPException 400 ''Invalid ride id''"

abbreviation InvalidStatus :: exn where
  "InvalidStatus \<equiv> HTTPException 400 ''Invalid status''"

abbreviation NotFound :: exn where
  "NotFound \<equiv> HTTPException 404 ''Ride not found''"

definition ok :: doc where
  "ok = [(''ok'', Bool True)]"

subsection \<open>Helpers of main.py\<close>

text \<open>
  \<^verbatim>\<open>to_str_id\<close>: \<^verbatim>\<open>None\<close> stays \<^verbatim>\<open>None\<close>; in a copy of the document an
  ObjectId under \<^verbatim>\<open>_id\<close> is popped and its string stored under \<^verbatim>\<open>id\<close>.
\<close>

fun to_str_id :: "doc option \<Rightarrow> doc option" where
  "to_str_id None = None"
| "to_str_id (Some d) =
     (case map_of d ''_id'' of
        Some (ObjId i) \<Rightarrow> Some (AList.update ''id'' (Str (str_oid i)) (AList.delete ''_id'' d))
      | _ \<Rightarrow> Some d)"

text \<open>Python's truth value of \<^verbatim>\<open>None\<close> or a dict: a non-empty dict is true.\<close>

fun truthy :: "doc option \<Rightarrow> bool" where
  "truthy None = False"
| "truthy (Some d) = (d \<noteq> [])"

subsection \<open>The Ride schema and the request bodies\<close>

record Ride =
  rider_id :: string
  pickup :: string
  dropoff :: string
  status :: string
  driver_id :: "string option"
  fare_estimate :: "real option"

record RideRequest =
  rider_id :: string
  pickup :: string
  dropoff :: string

record AssignDriver =
  driver_id :: string

record UpdateRideStatus =
  status :: string

record UpdateDriverStatus =
  user_id :: string
  is_available :: bool
  lat :: "real option"
  lng :: "real option"

fun opt_str :: "string option \<Rightarrow> val" where
  "opt_str None = Null"
| "opt_str (Some s) = Str s"

fun opt_float :: "real option \<Rightarrow> val" where
  "opt_float None = Null"
| "opt_float (Some r) = Float r"

text \<open>\<^verbatim>\<open>model_dump()\<close>: the fields of the model, in declaration order.\<close>

definition Ride_model_dump :: "Ride \<Rightarrow> doc" where
  "Ride_model_dump r =
     [(''rider_id'', Str (Ride.rider_id r)),
      (''pickup'', Str (Ride.pickup r)),
      (''dropoff'', Str (Ride.dropoff r)),
      (''status'', Str (Ride.status r)),
      (''driver_id'', opt_str (Ride.driver_id r)),
      (''fare_estimate'', opt_float (fare_estimate r))]"

definition UpdateDriverStatus_model_dump :: "UpdateDriverStatus \<Rightarrow> doc" where
  "UpdateDriverStatus_model_dump b =
     [(''user_id'', Str (user_id b)),
      (''is_available'', Bool (is_available b)),
      (''lat'', opt_float (lat b)),
      (''lng'', opt_float (lng b))]"

subsection \<open>The entity store's create\<close>

text \<open>
  Modelled from the spec: \<^verbatim>\<open>create_document\<close> is imported from \<^verbatim>\<open>database.py\<close>,
  which is not among the sources. The spec's \<^verbatim>\<open>create(kind, record) -> id\<close>
  assigns a new unique id, stores the record under (kind, id), returns the id, sets
  the timestamp fields, and fails with \<^verbatim>\<open>StoreUnavailable\<close> if the store is not
  configured. The id the store generates is the argument \<open>new_id\<close>; the record is
  passed as the dict of its fields.
\<close>

definition create_document ::
  "database option \<Rightarrow> string \<Rightarrow> doc \<Rightarrow> int \<Rightarrow> objectid \<Rightarrow> (exn + string) \<times> database option" where
  "create_document db collection_name data now new_id =
     (case db of
        None \<Rightarrow> (Inl StoreUnavailable, db)
      | Some s \<Rightarrow>
          (Inr (str_oid new_id),
           Some (s(collection_name := s collection_name @
             [(''_id'', ObjId new_id) #
              set_fields [(''created_at'', Datetime now), (''updated_at'', Datetime now)] data]))))"

subsection \<open>The handlers of main.py\<close>

text \<open>\<^verbatim>\<open>POST /api/rides\<close>\<close>

definition request_ride ::
  "database option \<Rightarrow> RideRequest \<Rightarrow> int \<Rightarrow> objectid \<Rightarrow> (exn + doc) \<times> database option" where
  "request_ride db req now new_id =
     (case db of
        None \<Rightarrow> (Inl StoreUnavailable, db)
      | Some s \<Rightarrow>
          (let ride = \<lparr>Ride.rider_id = rider_id req,
                       Ride.pickup = pickup req,
                       Ride.dropoff = dropoff req,
                       Ride.status = ''requested'',
                       Ride.driver_id = None,
                       Ride.fare_estimate = None\<rparr>
           in case create_document db ''ride'' (Ride_model_dump ride) now new_id of
                (Inl e, db') \<Rightarrow> (Inl e, db')
              | (Inr ride_id, db') \<Rightarrow> (Inr [(''id'', Str ride_id)], db')))"

text \<open>\<^verbatim>\<open>GET /api/rides\<close>\<close>

definition list_rides ::
  "database option \<Rightarrow> string option \<Rightarrow> (exn + doc option list) \<times> database option" where
  "list_rides db rider_id' =
     (case db of
        None \<Rightarrow> (Inl StoreUnavailable, db)
      | Some s \<Rightarrow>
          (let filter_q = (case rider_id' of
                             None \<Rightarrow> []
                           | Some r \<Rightarrow> if r \<noteq> [] then [(''rider_id'', Str r)] else []);
               rides = limit 20 (sort_desc ''created_at'' (find_cursor (s ''ride'') filter_q))
           in (Inr (map (\<lambda>r. to_str_id (Some r)) rides), db)))"

text \<open>\<^verbatim>\<open>POST /api/rides/{ride_id}/assign\<close>\<close>

definition assign_driver ::
  "database option \<Rightarrow> string \<Rightarrow> AssignDriver \<Rightarrow> int \<Rightarrow> (exn + doc) \<times> database option" where
  "assign_driver db ride_id body now =
     (case db of
        None \<Rightarrow> (Inl StoreUnavailable, db)
      | Some s \<Rightarrow>
          (case ObjectId ride_id of
             None \<Rightarrow> (Inl InvalidId, db)
           | Some oid \<Rightarrow>
               (case update_one (s ''ride'') [(''_id'', ObjId oid)]
                       [(''driver_id'', Str (driver_id body)),
                        (''status'', Str ''accepted''),
                        (''updated_at'', Datetime now)] of
                  (c', matched_count) \<Rightarrow>
                    if matched_count = 0 then (Inl NotFound, Some (s(''ride'' := c')))
                    else (Inr ok, Some (s(''ride'' := c'))))))"

text \<open>\<^verbatim>\<open>POST /api/rides/{ride_id}/status\<close>\<close>

definition update_ride_status ::
  "database option \<Rightarrow> string \<Rightarrow> UpdateRideStatus \<Rightarrow> int \<Rightarrow> (exn + doc) \<times> database option" where
  "update_ride_status db ride_id body now =
     (case db of
        None \<Rightarrow> (Inl StoreUnavailable, db)
      | Some s \<Rightarrow>
          (case ObjectId ride_id of
             None \<Rightarrow> (Inl InvalidId, db)
           | Some oid \<Rightarrow>
               if status body \<notin>
                    set [''requested'', ''accepted'', ''picked_up'', ''completed'', ''cancelled'']
               then (Inl InvalidStatus, db)
               else
                 (case update_one (s ''ride'') [(''_id'', ObjId oid)]
                         [(''status'', Str (status body)),
                          (''updated_at'', Datetime now)] of
                    (c', matched_count) \<Rightarrow>
                      if matched_count = 0 then (Inl NotFound, Some (s(''ride'' := c')))
                      else (Inr ok, Some (s(''ride'' := c'))))))"

text \<open>\<^verbatim>\<open>POST /api/driver/status\<close>\<close>

definition update_driver_status ::
  "database option \<Rightarrow> UpdateDriverStatus \<Rightarrow> int \<Rightarrow> objectid \<Rightarrow> (exn + doc) \<times> database option" where
  "update_driver_status db body now new_id =
     (case db of
        None \<Rightarrow> (Inl StoreUnavailable, db)
      | Some s \<Rightarrow>
          (let existing = find_one (s ''driverstatus'') [(''user_id'', Str (user_id body))];
               data = AList.delete ''user_id'' (UpdateDriverStatus_model_dump body)
           in if truthy existing then
                (case existing of
                   None \<Rightarrow> (Inl TypeError, db)
                 | Some e \<Rightarrow>
                     (case map_of e ''_id'' of
                        None \<Rightarrow> (Inl (KeyError ''_id''), db)
                      | Some i \<Rightarrow>
                          (case update_one (s ''driverstatus'') [(''_id'', i)]
                                  (set_fields [(''updated_at'', Datetime now)] data) of
                             (c', matched_count) \<Rightarrow> (Inr ok, Some (s(''driverstatus'' := c'))))))
              else
                (case create_document db ''driverstatus''
                        (set_fields data [(''user_id'', Str (user_id body))]) now new_id of
                   (Inl e, db') \<Rightarrow> (Inl e, db')
                 | (Inr status_id, db') \<Rightarrow> (Inr ok, db'))))"

text \<open>
  \<^verbatim>\<open>GET /api/drivers\<close>. A profile is the user's document with one more entry,
  \<^verbatim>\<open>status\<close>, which holds \<^verbatim>\<open>None\<close> or a dict; \<open>Plain\<close> and \<open>Nested\<close> tell the two
  kinds of entries apart.
\<close>

datatype jval = Plain val | Nested doc

type_synonym profile = "(string \<times> jval) list"

definition plain :: "doc \<Rightarrow> profile" where
  "plain d = map (\<lambda>(k, v). (k, Plain v)) d"

text \<open>
  \<^verbatim>\<open>status and {k: v for k, v in status.items() if k != "_id"}\<close>: a false \<open>status\<close>
  (\<^verbatim>\<open>None\<close> or the empty dict) is the value itself.
\<close>

fun status_and :: "doc option \<Rightarrow> jval" where
  "status_and None = Plain Null"
| "status_and (Some st) = (if st = [] then Nested st else Nested (filter (\<lambda>(k, v). k \<noteq> ''_id'') st))"

text \<open>The loop body over the cursor \<open>drivers\<close>, appending to \<open>result\<close>.\<close>

fun drivers_loop :: "database \<Rightarrow> doc list \<Rightarrow> profile list \<Rightarrow> exn + profile list" where
  "drivers_loop s [] result = Inr result"
| "drivers_loop s (d # drivers) result =
     (case to_str_id (Some d) of
        None \<Rightarrow> Inl TypeError
      | Some p \<Rightarrow>
          (case map_of p ''id'' of
             None \<Rightarrow> Inl (KeyError ''id'')
           | Some pid \<Rightarrow>
               (let status' = find_one (s ''driverstatus'') [(''user_id'', pid)];
                    p' = AList.update ''status'' (status_and status') (plain p)
                in drivers_loop s drivers (result @ [p']))))"

definition list_available_drivers ::
  "database option \<Rightarrow> (exn + profile list) \<times> database option" where
  "list_available_drivers db =
     (case db of
        None \<Rightarrow> (Inl StoreUnavailable, db)
      | Some s \<Rightarrow>
          (let drivers = find_cursor (s ''user'') [(''role'', Str ''driver''), (''is_active'', Bool True)]
           in (drivers_loop s drivers [], db)))"

subsection \<open>Observations and example data\<close>

text \<open>The field \<open>k\<close> of the ride that a lookup by \<^verbatim>\<open>_id\<close> finds.\<close>

definition ride_field :: "database option \<Rightarrow> objectid \<Rightarrow> string \<Rightarrow> val option" where
  "ride_field db oid k =
     (case db of
        None \<Rightarrow> None
      | Some s \<Rightarrow>
          (case find_one (s ''ride'') [(''_id'', ObjId oid)] of
             None \<Rightarrow> None
           | Some r \<Rightarrow> map_of r k))"

text \<open>A store with one completed ride.\<close>

definition ride_A :: doc where
  "ride_A =
     [(''_id'', ObjId (Oid ''0123456789abcdef01234567'')),
      (''rider_id'', Str ''r1''), (''pickup'', Str ''A''), (''dropoff'', Str ''B''),
      (''status'', Str ''completed''), (''driver_id'', Str ''d1''),
      (''fare_estimate'', Null), (''created_at'', Datetime 5), (''updated_at'', Datetime 6)]"

definition store_A :: database where
  "store_A = (\<lambda>name. if name = ''ride'' then [ride_A] else [])"

text \<open>A store with two rides of two riders; the second was created later.\<close>

definition ride_B :: doc where
  "ride_B =
     [(''_id'', ObjId (Oid ''aaaaaaaaaaaaaaaaaaaaaaaa'')),
      (''rider_id'', Str ''r2''), (''pickup'', Str ''C''), (''dropoff'', Str ''D''),
      (''status'', Str ''requested''), (''driver_id'', Null),
      (''fare_estimate'', Null), (''created_at'', Datetime 9), (''updated_at'', Datetime 9)]"

definition store_B :: database where
  "store_B = (\<lambda>name. if name = ''ride'' then [ride_A, ride_B] else [])"

text \<open>The driverstatus collection behind a handle (empty when there is no store).\<close>

definition driverstatus_of :: "database option \<Rightarrow> collection" where
  "driverstatus_of db = (case db of None \<Rightarrow> [] | Some s \<Rightarrow> s ''driverstatus'')"

text \<open>
  What MongoDB guarantees of a collection: every document has an \<^verbatim>\<open>_id\<close>, and
  no two documents share one.
\<close>

definition wf_ids :: "collection \<Rightarrow> bool" where
  "wf_ids c =
     (list_all (\<lambda>d. map_of d ''_id'' \<noteq> None) c \<and> distinct (map (\<lambda>d. map_of d ''_id'') c))"

text \<open>A document whose \<^verbatim>\<open>_id\<close> is an ObjectId, as every inserted document's is.\<close>

definition has_oid :: "doc \<Rightarrow> bool" where
  "has_oid d = (case map_of d ''_id'' of Some (ObjId i) \<Rightarrow> True | _ \<Rightarrow> False)"

text \<open>A store with one driver status, and one where two reports raced for one driver.\<close>

definition status_1 :: doc where
  "status_1 =
     [(''_id'', ObjId (Oid ''bbbbbbbbbbbbbbbbbbbbbb01'')), (''user_id'', Str ''cccccccccccccccccccccc01''),
      (''is_available'', Bool True), (''lat'', Float 1), (''lng'', Float 2),
      (''created_at'', Datetime 1), (''updated_at'', Datetime 1)]"

definition status_2 :: doc where
  "status_2 =
     [(''_id'', ObjId (Oid ''bbbbbbbbbbbbbbbbbbbbbb02'')), (''user_id'', Str ''cccccccccccccccccccccc01''),
      (''is_available'', Bool False), (''lat'', Null), (''lng'', Null),
      (''created_at'', Datetime 2), (''updated_at'', Datetime 2)]"

definition user_1 :: doc where
  "user_1 =
     [(''_id'', ObjId (Oid ''cccccccccccccccccccccc01'')), (''name'', Str ''Dee''),
      (''role'', Str ''driver''), (''phone'', Null), (''is_active'', Bool True)]"

definition user_2 :: doc where
  "user_2 =
     [(''_id'', ObjId (Oid ''cccccccccccccccccccccc02'')), (''name'', Str ''Ray''),
      (''role'', Str ''rider''), (''phone'', Null), (''is_active'', Bool True)]"

definition user_3 :: doc where
  "user_3 =
     [(''_id'', ObjId (Oid ''cccccccccccccccccccccc03'')), (''name'', Str ''Eve''),
      (''role'', Str ''driver''), (''phone'', Null), (''is_active'', Bool False)]"

definition user_4 :: doc where
  "user_4 =
     [(''_id'', ObjId (Oid ''cccccccccccccccccccccc04'')), (''name'', Str ''Dan''),
      (''role'', Str ''driver''), (''phone'', Null), (''is_active'', Bool True)]"

definition store_D :: database where
  "store_D =
     (\<lambda>name. if name = ''user'' then [user_1, user_2, user_3, user_4]
             else if name = ''driverstatus'' then [status_1] else [])"

definition store_race :: database where
  "store_race =
     (\<lambda>name. if name = ''user'' then [user_1, user_2, user_3, user_4]
             else if name = ''driverstatus'' then [status_1, status_2] else [])"

section \<open>Properties of the store operations\<close>

lemma find_one_Nil: "find_one [] q = None"
  by (simp add: find_one_def find_cursor_def)

lemma find_one_Cons: "find_one (d # ds) q = (if matches q d then Some d else find_one ds q)"
  by (simp add: find_one_def find_cursor_def)

lemma find_one_append:
  "find_one (c @ [d]) q =
     (case find_one c q of Some x \<Rightarrow> Some x | None \<Rightarrow> if matches q d then Some d else None)"
  by (induction c) (auto simp: find_one_Nil find_one_Cons)

lemma find_one_in_set: "find_one c q = Some d \<Longrightarrow> d \<in> set c \<and> matches q d"
  by (induction c) (auto simp: find_one_Nil find_one_Cons split: if_splits)

lemma find_one_None_iff: "find_one c q = None \<longleftrightarrow> find_cursor c q = []"
  by (simp add: find_one_def split: list.splits)

lemma map_of_set_fields_other:
  "k \<notin> fst ` set upd \<Longrightarrow> map_of (set_fields upd d) k = map_of d k"
  by (induction upd d rule: set_fields.induct) (auto simp: update_conv')

lemma matches_set_fields:
  "fst ` set q \<inter> fst ` set upd = {} \<Longrightarrow> matches q (set_fields upd d) = matches q d"
proof -
  assume disj: "fst ` set q \<inter> fst ` set upd = {}"
  have notin: "k \<notin> fst ` set upd" if "(k, v) \<in> set q" for k v
    using disj that by force
  have "map_of (set_fields upd d) k = map_of d k" if "(k, v) \<in> set q" for k v
    using notin [OF that] by (rule map_of_set_fields_other)
  then show ?thesis
    unfolding matches_def list_all_iff by (auto split: prod.splits)
qed

lemma update_one_length: "length (fst (update_one c q upd)) = length c"
  by (induction c) (auto split: prod.splits)

lemma update_one_no_match: "find_one c q = None \<Longrightarrow> update_one c q upd = (c, 0)"
  by (induction c) (auto simp: find_one_Nil find_one_Cons split: if_splits)

lemma update_one_matched: "find_one c q = Some d \<Longrightarrow> snd (update_one c q upd) = 1"
  by (induction c) (auto simp: find_one_Nil find_one_Cons split: if_splits prod.splits)

lemma update_one_frame:
  "j < length c \<Longrightarrow> k \<notin> fst ` set upd \<Longrightarrow>
   map_of (fst (update_one c q upd) ! j) k = map_of (c ! j) k"
proof (induction c arbitrary: j)
  case Nil
  then show ?case by simp
next
  case (Cons d ds)
  show ?case
  proof (cases "matches q d")
    case True
    with Cons.prems show ?thesis
      by (cases j) (simp_all add: map_of_set_fields_other)
  next
    case False
    with Cons show ?thesis
      by (cases j) (auto split: prod.splits)
  qed
qed

lemma update_one_matches_other:
  "fst ` set q' \<inter> fst ` set upd = {} \<Longrightarrow>
   map (matches q') (fst (update_one c q upd)) = map (matches q') c"
  by (induction c) (auto simp: matches_set_fields split: prod.splits)

lemma update_one_count:
  "fst ` set q' \<inter> fst ` set upd = {} \<Longrightarrow>
   length (find_cursor (fst (update_one c q upd)) q') = length (find_cursor c q')"
proof -
  assume "fst ` set q' \<inter> fst ` set upd = {}"
  then have "map (matches q') (fst (update_one c q upd)) = map (matches q') c"
    by (rule update_one_matches_other)
  then have "length (filter id (map (matches q') (fst (update_one c q upd)))) =
             length (filter id (map (matches q') c))" by simp
  then show ?thesis
    by (simp add: find_cursor_def filter_map comp_def)
qed

text \<open>
  When the update's filter and another filter find the same document first, the other
  filter finds the updated document afterwards, provided the update writes none of
  the fields it tests.
\<close>

lemma find_one_update_one:
  "find_one c q = Some e \<Longrightarrow> find_one c q' = Some e \<Longrightarrow>
   fst ` set q' \<inter> fst ` set upd = {} \<Longrightarrow>
   find_one (fst (update_one c q upd)) q' = Some (set_fields upd e)"
proof (induction c)
  case Nil
  then show ?case by (simp add: find_one_Nil)
next
  case (Cons d ds)
  show ?case
  proof (cases "matches q d")
    case qd: True
    show ?thesis
    proof (cases "matches q' d")
      case True
      with qd Cons.prems show ?thesis
        by (simp add: find_one_Cons matches_set_fields)
    next
      case False
      with qd Cons.prems have "find_one ds q' = Some d"
        by (simp add: find_one_Cons)
      with False show ?thesis
        by (auto dest: find_one_in_set)
    qed
  next
    case nqd: False
    show ?thesis
    proof (cases "matches q' d")
      case True
      with nqd Cons.prems have "find_one ds q = Some d"
        by (simp add: find_one_Cons)
      with nqd show ?thesis
        by (auto dest: find_one_in_set)
    next
      case False
      with nqd Cons show ?thesis
        by (auto simp: find_one_Cons split: prod.splits)
    qed
  qed
qed


lemma update_one_found:
  assumes "find_one c q = Some r" and "fst ` set q \<inter> fst ` set upd = {}"
  shows "\<exists>c'. update_one c q upd = (c', 1) \<and> find_one c' q = Some (set_fields upd r)"
proof -
  obtain c' n where u: "update_one c q upd = (c', n)" by (cases "update_one c q upd")
  have "n = 1" using update_one_matched [OF assms(1), of upd] u by simp
  moreover have "find_one c' q = Some (set_fields upd r)"
    using find_one_update_one [OF assms(1) assms(1) assms(2)] u by simp
  ultimately show ?thesis using u by simp
qed


subsection \<open>Identifiers used in the examples\<close>

lemma ObjectId_A:
  "ObjectId ''0123456789ABCDEF01234567'' = Some (Oid ''0123456789abcdef01234567'')"
  by (simp add: ObjectId_def hexdigit_def ascii_space_def lower_def)

lemma ObjectId_F:
  "ObjectId ''ffffffffffffffffffffffff'' = Some (Oid ''ffffffffffffffffffffffff'')"
  by (simp add: ObjectId_def hexdigit_def ascii_space_def lower_def)

lemma ObjectId_bad: "ObjectId ''not-an-id'' = None"
  by (simp add: ObjectId_def)

lemma find_ride_A:
  "find_one (store_A ''ride'') [(''_id'', ObjId (Oid ''0123456789abcdef01234567''))] = Some ride_A"
  by (simp add: store_A_def ride_A_def find_one_def find_cursor_def matches_def)

lemma find_ride_F:
  "find_one (store_A ''ride'') [(''_id'', ObjId (Oid ''ffffffffffffffffffffffff''))] = None"
  by (simp add: store_A_def ride_A_def find_one_def find_cursor_def matches_def)

subsection \<open>Cursors: filter, sort, limit\<close>

lemma find_cursor_all: "find_cursor c [] = c"
  by (simp add: find_cursor_def matches_def)

lemma matches_Str: "matches [(k, Str v)] d \<longleftrightarrow> map_of d k = Some (Str v)"
  by (simp add: matches_def)

lemma find_cursor_rider:
  "find_cursor c [(''rider_id'', Str r)] = filter (\<lambda>d. map_of d ''rider_id'' = Some (Str r)) c"
  by (induction c) (simp_all add: find_cursor_def matches_Str)

lemma sort_desc_sorted:
  "sorted_wrt (\<lambda>a b. bson_key (map_of b field) \<le> bson_key (map_of a field)) (sort_desc field ds)"
proof -
  have "sorted (map (\<lambda>d. bson_key (map_of d field)) (sort_key (\<lambda>d. bson_key (map_of d field)) ds))"
    by (rule sorted_sort_key)
  then have "sorted_wrt (\<lambda>a b. bson_key (map_of a field) \<le> bson_key (map_of b field))
               (sort_key (\<lambda>d. bson_key (map_of d field)) ds)"
    by (simp add: sorted_map)
  then show ?thesis
    by (simp add: sort_desc_def sorted_wrt_rev)
qed

lemma sort_desc_mset: "mset (sort_desc field ds) = mset ds"
  by (simp add: sort_desc_def)

lemma to_str_id_other:
  "k \<noteq> ''id'' \<Longrightarrow> k \<noteq> ''_id'' \<Longrightarrow>
   (case to_str_id (Some d) of None \<Rightarrow> None | Some d' \<Rightarrow> map_of d' k) = map_of d k"
  by (simp add: update_conv' split: option.splits val.splits)

lemma to_str_id_Some: "\<exists>d'. to_str_id (Some d) = Some d'"
  by (simp split: option.splits val.splits)

text \<open>Among dates, the order of the sort keys is the order of the dates.\<close>

lemma bson_key_Datetime: "bson_key (Some (Datetime t)) \<le> bson_key (Some (Datetime t')) \<longleftrightarrow> t \<le> t'"
  by auto

subsection \<open>The driver status upsert\<close>

lemma matches_nonempty: "matches [(k, Str v)] d \<Longrightarrow> d \<noteq> []"
  by (auto simp: matches_def)

lemma wf_ids_find_by_id:
  "wf_ids c \<Longrightarrow> e \<in> set c \<Longrightarrow> map_of e ''_id'' = Some i \<Longrightarrow> find_one c [(''_id'', i)] = Some e"
proof (induction c)
  case Nil
  then show ?case by simp
next
  case (Cons d ds)
  show ?case
  proof (cases "e = d")
    case True
    with Cons.prems show ?thesis by (simp add: find_one_Cons matches_def)
  next
    case False
    with Cons.prems have e: "e \<in> set ds" by simp
    from Cons.prems have wf: "wf_ids ds" by (simp add: wf_ids_def)
    from e have "map_of e ''_id'' \<in> (\<lambda>d. map_of d ''_id'') ` set ds" by (rule imageI)
    moreover from Cons.prems(1) have "map_of d ''_id'' \<notin> (\<lambda>d. map_of d ''_id'') ` set ds"
      by (simp add: wf_ids_def)
    ultimately have "map_of d ''_id'' \<noteq> map_of e ''_id''" by metis
    moreover from Cons.prems have "map_of d ''_id'' \<noteq> None" by (simp add: wf_ids_def)
    ultimately have "\<not> matches [(''_id'', i)] d"
      using Cons.prems(3) by (auto simp: matches_def)
    then show ?thesis
      using Cons.IH [OF wf e Cons.prems(3)] by (simp add: find_one_Cons)
  qed
qed

lemma update_one_ids:
  "''_id'' \<notin> fst ` set upd \<Longrightarrow>
   map (\<lambda>d. map_of d ''_id'') (fst (update_one c q upd)) = map (\<lambda>d. map_of d ''_id'') c"
  by (induction c) (auto simp: map_of_set_fields_other split: prod.splits)

lemma wf_ids_update_one:
  "''_id'' \<notin> fst ` set upd \<Longrightarrow> wf_ids c \<Longrightarrow> wf_ids (fst (update_one c q upd))"
proof -
  assume a: "''_id'' \<notin> fst ` set upd" and wf: "wf_ids c"
  have m: "map (\<lambda>d. map_of d ''_id'') (fst (update_one c q upd)) = map (\<lambda>d. map_of d ''_id'') c"
    using a by (rule update_one_ids)
  have la: "list_all (\<lambda>d. map_of d ''_id'' \<noteq> None) c' \<longleftrightarrow>
            None \<notin> set (map (\<lambda>d. map_of d ''_id'') c')" for c' :: collection
    by (induction c') auto
  from wf have "None \<notin> set (map (\<lambda>d. map_of d ''_id'') c) \<and>
                distinct (map (\<lambda>d. map_of d ''_id'') c)"
    unfolding wf_ids_def la .
  then have "None \<notin> set (map (\<lambda>d. map_of d ''_id'') (fst (update_one c q upd))) \<and>
             distinct (map (\<lambda>d. map_of d ''_id'') (fst (update_one c q upd)))"
    unfolding m .
  then show ?thesis unfolding wf_ids_def la .
qed

lemma wf_ids_append:
  "wf_ids c \<Longrightarrow> find_one c [(''_id'', ObjId i)] = None \<Longrightarrow> map_of d ''_id'' = Some (ObjId i) \<Longrightarrow>
   wf_ids (c @ [d])"
proof -
  assume wf: "wf_ids c" and fresh: "find_one c [(''_id'', ObjId i)] = None"
    and d: "map_of d ''_id'' = Some (ObjId i)"
  have "map_of x ''_id'' \<noteq> Some (ObjId i)" if "x \<in> set c" for x
  proof
    assume "map_of x ''_id'' = Some (ObjId i)"
    then have "matches [(''_id'', ObjId i)] x" by (simp add: matches_def)
    with that have "find_cursor c [(''_id'', ObjId i)] \<noteq> []"
      by (auto simp: find_cursor_def filter_empty_conv)
    with fresh show False by (simp add: find_one_None_iff)
  qed
  note notin = this
  have "map_of d ''_id'' \<notin> (\<lambda>d. map_of d ''_id'') ` set c"
  proof
    assume "map_of d ''_id'' \<in> (\<lambda>d. map_of d ''_id'') ` set c"
    then obtain x where "x \<in> set c" and "map_of d ''_id'' = map_of x ''_id''" by (rule imageE)
    with notin [of x] d show False by simp
  qed
  with wf d show ?thesis by (simp add: wf_ids_def)
qed

lemma count_append:
  "length (find_cursor (c @ [d]) q) = length (find_cursor c q) + (if matches q d then 1 else 0)"
  by (simp add: find_cursor_def)

lemma count_le_1_find_one:
  "find_one c q = Some e \<Longrightarrow> length (find_cursor c q) \<le> 1 \<Longrightarrow> length (find_cursor c q) = 1"
  by (cases "find_cursor c q") (auto simp: find_one_def)

lemma report_payload:
  "AList.update ''updated_at'' (Datetime now)
     (AList.delete ''user_id'' (UpdateDriverStatus_model_dump body)) =
     [(''is_available'', Bool (is_available body)), (''lat'', opt_float (lat body)),
      (''lng'', opt_float (lng body)), (''updated_at'', Datetime now)]"
  by (simp add: UpdateDriverStatus_model_dump_def AList.delete_eq)

lemma update_driver_status_found:
  assumes "find_one (s ''driverstatus'') [(''user_id'', Str (user_id body))] = Some e"
    and "map_of e ''_id'' = Some i"
  shows "update_driver_status (Some s) body now new_id =
           (Inr ok, Some (s(''driverstatus'' :=
              fst (update_one (s ''driverstatus'') [(''_id'', i)]
                     [(''is_available'', Bool (is_available body)), (''lat'', opt_float (lat body)),
                      (''lng'', opt_float (lng body)), (''updated_at'', Datetime now)]))))"
proof -
  from assms(1) have "matches [(''user_id'', Str (user_id body))] e"
    by (auto dest: find_one_in_set)
  then have "e \<noteq> []" by (rule matches_nonempty)
  then show ?thesis
    using assms by (auto simp: update_driver_status_def report_payload split: prod.splits)
qed

lemma update_driver_status_new:
  assumes "find_one (s ''driverstatus'') [(''user_id'', Str (user_id body))] = None"
  shows "update_driver_status (Some s) body now new_id =
           (Inr ok, Some (s(''driverstatus'' := s ''driverstatus'' @
              [[(''_id'', ObjId new_id), (''user_id'', Str (user_id body)),
                (''is_available'', Bool (is_available body)), (''lat'', opt_float (lat body)),
                (''lng'', opt_float (lng body)), (''created_at'', Datetime now),
                (''updated_at'', Datetime now)]])))"
  using assms
  by (simp add: update_driver_status_def create_document_def UpdateDriverStatus_model_dump_def
        AList.delete_eq)

text \<open>A report for a driver whose record exists, in a collection with proper ids.\<close>

lemma report_found:
  assumes wf: "wf_ids (s ''driverstatus'')"
    and f: "find_one (s ''driverstatus'') [(''user_id'', Str (user_id body))] = Some e"
  shows "\<exists>c'. update_driver_status (Some s) body now new_id =
                 (Inr ok, Some (s(''driverstatus'' := c'))) \<and>
               wf_ids c' \<and>
               find_one c' [(''user_id'', Str (user_id body))] =
                 Some (set_fields [(''is_available'', Bool (is_available body)),
                                   (''lat'', opt_float (lat body)), (''lng'', opt_float (lng body)),
                                   (''updated_at'', Datetime now)] e) \<and>
               map (\<lambda>d. map_of d ''_id'') c' = map (\<lambda>d. map_of d ''_id'') (s ''driverstatus'') \<and>
               (\<forall>u'. length (find_cursor c' [(''user_id'', Str u')]) =
                     length (find_cursor (s ''driverstatus'') [(''user_id'', Str u')]))"
proof -
  let ?ds = "s ''driverstatus''"
  let ?upd = "[(''is_available'', Bool (is_available body)), (''lat'', opt_float (lat body)),
               (''lng'', opt_float (lng body)), (''updated_at'', Datetime now)]"
  from f have e: "e \<in> set ?ds" by (auto dest: find_one_in_set)
  with wf obtain i where i: "map_of e ''_id'' = Some i"
    by (auto simp: wf_ids_def list_all_iff)
  let ?c' = "fst (update_one ?ds [(''_id'', i)] ?upd)"
  have byid: "find_one ?ds [(''_id'', i)] = Some e"
    using wf e i by (rule wf_ids_find_by_id)
  have res: "update_driver_status (Some s) body now new_id = (Inr ok, Some (s(''driverstatus'' := ?c')))"
    using f i by (rule update_driver_status_found)
  have wf': "wf_ids ?c'"
    using wf by (intro wf_ids_update_one) simp_all
  have found: "find_one ?c' [(''user_id'', Str (user_id body))] = Some (set_fields ?upd e)"
    using byid f by (rule find_one_update_one) simp
  have ids: "map (\<lambda>d. map_of d ''_id'') ?c' = map (\<lambda>d. map_of d ''_id'') ?ds"
    by (rule update_one_ids) simp
  have cnt: "length (find_cursor ?c' [(''user_id'', Str u')]) =
             length (find_cursor ?ds [(''user_id'', Str u')])" for u'
    by (rule update_one_count) simp
  from res wf' found ids cnt show ?thesis by blast
qed

lemma update_one_list_update:
  "find_one c q = Some e \<Longrightarrow>
   \<exists>j<length c. c ! j = e \<and> fst (update_one c q upd) = c[j := set_fields upd e]"
proof (induction c)
  case Nil
  then show ?case by (simp add: find_one_Nil)
next
  case (Cons d ds)
  show ?case
  proof (cases "matches q d")
    case True
    with Cons.prems have "d = e" by (simp add: find_one_Cons)
    with True show ?thesis by (intro exI [of _ 0]) simp
  next
    case False
    with Cons.prems have "find_one ds q = Some e" by (simp add: find_one_Cons)
    then obtain j where "j < length ds" "ds ! j = e"
      "fst (update_one ds q upd) = ds[j := set_fields upd e]"
      using Cons.IH by blast
    with False show ?thesis
      by (intro exI [of _ "Suc j"]) (auto split: prod.splits)
  qed
qed

subsection \<open>The driver directory\<close>

lemma map_of_plain: "map_of (plain d) k = map_option Plain (map_of d k)"
  by (induction d) (auto simp: plain_def)

lemma has_oid_iff: "has_oid d \<longleftrightarrow> (\<exists>i. map_of d ''_id'' = Some (ObjId i))"
  by (auto simp: has_oid_def split: option.splits val.splits)

lemma status_and_find_one:
  "status_and (find_one c [(''user_id'', Str u)]) =
     (case find_cursor c [(''user_id'', Str u)] of
        [] \<Rightarrow> Plain Null
      | st # rest \<Rightarrow> Nested (filter (\<lambda>(k, v). k \<noteq> ''_id'') st))"
proof (cases "find_cursor c [(''user_id'', Str u)]")
  case Nil
  then show ?thesis by (simp add: find_one_def)
next
  case (Cons st rest)
  then have "st \<in> set (find_cursor c [(''user_id'', Str u)])" by simp
  then have "matches [(''user_id'', Str u)] st" by (simp add: find_cursor_def)
  then have "st \<noteq> []" by (rule matches_nonempty)
  with Cons show ?thesis by (simp add: find_one_def)
qed

text \<open>The loop of \<^verbatim>\<open>list_available_drivers\<close> over drivers with ObjectId ids.\<close>

lemma drivers_loop_profiles:
  assumes "list_all has_oid drivers"
  shows "drivers_loop s drivers result =
           Inr (result @
             map (\<lambda>d. case map_of d ''_id'' of
                         Some (ObjId i) \<Rightarrow>
                           AList.update ''status''
                             (status_and (find_one (s ''driverstatus'') [(''user_id'', Str (str_oid i))]))
                             (plain (AList.update ''id'' (Str (str_oid i)) (AList.delete ''_id'' d)))
                       | _ \<Rightarrow> []) drivers)"
  using assms
proof (induction drivers arbitrary: result)
  case Nil
  then show ?case by simp
next
  case (Cons d drivers)
  from Cons.prems obtain i where i: "map_of d ''_id'' = Some (ObjId i)"
    by (auto simp: has_oid_iff)
  from Cons.prems have rest: "list_all has_oid drivers" by simp
  show ?case
    using i Cons.IH [OF rest] by (simp add: update_conv')
qed

lemma find_cursor_active_drivers:
  "find_cursor c [(''role'', Str ''driver''), (''is_active'', Bool True)] =
     filter (\<lambda>d. map_of d ''role'' = Some (Str ''driver'') \<and> map_of d ''is_active'' = Some (Bool True)) c"
  by (induction c) (simp_all add: find_cursor_def matches_def)

subsection \<open>What ObjectId accepts\<close>

text \<open>
  Every string of 24 hexadecimal digits is accepted, and nothing of another length
  is; a string of 24 characters in which whitespace stands between pairs of digits
  is accepted too.
\<close>

lemma hexdigit_not_space: "hexdigit c \<Longrightarrow> \<not> ascii_space c"
  by (auto simp: hexdigit_def ascii_space_def)

lemma fromhex_hex: "list_all hexdigit cs \<Longrightarrow> even (length cs) \<Longrightarrow> fromhex cs \<noteq> None"
  by (induction cs rule: fromhex.induct) (auto simp: hexdigit_not_space)

lemma ObjectId_hex24: "length cs = 24 \<Longrightarrow> list_all hexdigit cs \<Longrightarrow> ObjectId cs \<noteq> None"
  using fromhex_hex [of cs] by (simp add: ObjectId_def)

lemma ObjectId_length: "ObjectId cs = Some oid \<Longrightarrow> length cs = 24"
  by (simp add: ObjectId_def split: if_splits)

lemma ObjectId_padded:
  "ObjectId ''0123456789abcdef012345  '' = Some (Oid ''0123456789abcdef012345'')"
  by (simp add: ObjectId_def hexdigit_def ascii_space_def lower_def)

lemma find_ride_padded:
  "find_one (store_A ''ride'') [(''_id'', ObjId (Oid ''0123456789abcdef012345''))] = None"
  by (simp add: store_A_def ride_A_def find_one_def find_cursor_def matches_def)

section \<open>The ride lifecycle\<close>

text \<open>
  C1 (as amended). With the store configured, \<^verbatim>\<open>set_status\<close> answers an id that
  \<^verbatim>\<open>ObjectId\<close> rejects with \<^verbatim>\<open>InvalidId\<close>, whatever the status, and leaves the
  store unchanged. For an id that \<^verbatim>\<open>ObjectId\<close> accepts it fails with
  \<^verbatim>\<open>InvalidStatus\<close> when the status is outside the five-value enum and leaves the
  whole store, hence the ride's status, unchanged; when the status is in the enum
  and the ride exists, the call succeeds and the ride's status is the supplied
  value, whatever it was before; when the status is in the enum and no ride has the
  id, it fails with \<^verbatim>\<open>NotFound\<close> and leaves the store unchanged.
\<close>

theorem update_ride_status_outcomes:
  "(ObjectId ride_id = None \<longrightarrow>
      update_ride_status (Some s) ride_id body now = (Inl InvalidId, Some s)) \<and>
   (ObjectId ride_id = Some oid \<and>
    status body \<notin> set [''requested'', ''accepted'', ''picked_up'', ''completed'', ''cancelled''] \<longrightarrow>
      update_ride_status (Some s) ride_id body now = (Inl InvalidStatus, Some s)) \<and>
   (ObjectId ride_id = Some oid \<and>
    status body \<in> set [''requested'', ''accepted'', ''picked_up'', ''completed'', ''cancelled''] \<and>
    find_one (s ''ride'') [(''_id'', ObjId oid)] = Some r \<longrightarrow>
      fst (update_ride_status (Some s) ride_id body now) = Inr ok \<and>
      ride_field (snd (update_ride_status (Some s) ride_id body now)) oid ''status'' =
        Some (Str (status body))) \<and>
   (ObjectId ride_id = Some oid \<and>
    status body \<in> set [''requested'', ''accepted'', ''picked_up'', ''completed'', ''cancelled''] \<and>
    find_one (s ''ride'') [(''_id'', ObjId oid)] = None \<longrightarrow>
      update_ride_status (Some s) ride_id body now = (Inl NotFound, Some s))"
proof (intro conjI impI)
  assume "ObjectId ride_id = None"
  then show "update_ride_status (Some s) ride_id body now = (Inl InvalidId, Some s)"
    by (simp add: update_ride_status_def)
next
  assume "ObjectId ride_id = Some oid \<and>
    status body \<notin> set [''requested'', ''accepted'', ''picked_up'', ''completed'', ''cancelled'']"
  then show "update_ride_status (Some s) ride_id body now = (Inl InvalidStatus, Some s)"
    by (simp add: update_ride_status_def)
next
  assume a: "ObjectId ride_id = Some oid \<and>
    status body \<in> set [''requested'', ''accepted'', ''picked_up'', ''completed'', ''cancelled''] \<and>
    find_one (s ''ride'') [(''_id'', ObjId oid)] = Some r"
  let ?upd = "[(''status'', Str (status body)), (''updated_at'', Datetime now)]"
  from a have r: "find_one (s ''ride'') [(''_id'', ObjId oid)] = Some r" by simp
  obtain c' where c': "update_one (s ''ride'') [(''_id'', ObjId oid)] ?upd = (c', 1)"
    and f: "find_one c' [(''_id'', ObjId oid)] = Some (set_fields ?upd r)"
    using update_one_found [OF r, of ?upd] by auto
  have res: "update_ride_status (Some s) ride_id body now = (Inr ok, Some (s(''ride'' := c')))"
    using a c' by (simp add: update_ride_status_def)
  show "fst (update_ride_status (Some s) ride_id body now) = Inr ok"
    by (simp add: res)
  show "ride_field (snd (update_ride_status (Some s) ride_id body now)) oid ''status'' =
              Some (Str (status body))"
    by (simp add: res ride_field_def f update_conv')
next
  assume a: "ObjectId ride_id = Some oid \<and>
    status body \<in> set [''requested'', ''accepted'', ''picked_up'', ''completed'', ''cancelled''] \<and>
    find_one (s ''ride'') [(''_id'', ObjId oid)] = None"
  then have "update_one (s ''ride'') [(''_id'', ObjId oid)]
               [(''status'', Str (status body)), (''updated_at'', Datetime now)] = (s ''ride'', 0)"
    by (simp add: update_one_no_match)
  with a show "update_ride_status (Some s) ride_id body now = (Inl NotFound, Some s)"
    by (simp add: update_ride_status_def)
qed

theorem update_ride_status_outcomes_witness:
  "ObjectId ''not-an-id'' = None \<and>
   update_ride_status (Some store_A) ''not-an-id'' \<lparr>status = ''requested''\<rparr> 7 =
     (Inl InvalidId, Some store_A) \<and>
   ObjectId ''0123456789ABCDEF01234567'' = Some (Oid ''0123456789abcdef01234567'') \<and>
   update_ride_status (Some store_A) ''0123456789ABCDEF01234567'' \<lparr>status = ''bogus''\<rparr> 7 =
     (Inl InvalidStatus, Some store_A) \<and>
   ride_field (Some store_A) (Oid ''0123456789abcdef01234567'') ''status'' = Some (Str ''completed'') \<and>
   fst (update_ride_status (Some store_A) ''0123456789ABCDEF01234567'' \<lparr>status = ''requested''\<rparr> 7) =
     Inr ok \<and>
   ride_field (snd (update_ride_status (Some store_A) ''0123456789ABCDEF01234567''
                      \<lparr>status = ''requested''\<rparr> 7))
     (Oid ''0123456789abcdef01234567'') ''status'' = Some (Str ''requested'') \<and>
   update_ride_status (Some store_A) ''ffffffffffffffffffffffff'' \<lparr>status = ''requested''\<rparr> 7 =
     (Inl NotFound, Some store_A)"
  using update_ride_status_outcomes [of "''not-an-id''" store_A "\<lparr>status = ''requested''\<rparr>" 7
          "Oid ''ffffffffffffffffffffffff''" ride_A]
        update_ride_status_outcomes [of "''0123456789ABCDEF01234567''" store_A "\<lparr>status = ''bogus''\<rparr>" 7
          "Oid ''0123456789abcdef01234567''" ride_A]
        update_ride_status_outcomes [of "''0123456789ABCDEF01234567''" store_A
          "\<lparr>status = ''requested''\<rparr>" 7 "Oid ''0123456789abcdef01234567''" ride_A]
        update_ride_status_outcomes [of "''ffffffffffffffffffffffff''" store_A
          "\<lparr>status = ''requested''\<rparr>" 7 "Oid ''ffffffffffffffffffffffff''" ride_A]
        find_ride_A find_ride_F ObjectId_A ObjectId_F ObjectId_bad
  by (simp add: ride_field_def ride_A_def)

text \<open>
  C1 as stated fails: the id is parsed before the status is looked at, so an id that
  \<^verbatim>\<open>ObjectId\<close> rejects, with a status outside the enum, is answered with
  \<^verbatim>\<open>InvalidId\<close>.
\<close>

theorem update_ride_status_malformed_id_counterexample:
  "status \<lparr>status = ''bogus''\<rparr> \<notin>
     set [''requested'', ''accepted'', ''picked_up'', ''completed'', ''cancelled''] \<and>
   fst (update_ride_status (Some store_A) ''not-an-id'' \<lparr>status = ''bogus''\<rparr> 7) = Inl InvalidId \<and>
   fst (update_ride_status (Some store_A) ''not-an-id'' \<lparr>status = ''bogus''\<rparr> 7) \<noteq> Inl InvalidStatus"
  by (simp add: update_ride_status_def ObjectId_bad)

text \<open>
  C2 (as amended). With the store configured: for a ride id that \<^verbatim>\<open>ObjectId\<close>
  accepts and that matches a ride, \<^verbatim>\<open>assign_driver\<close> succeeds and the ride then
  has the given driver and the status \<^verbatim>\<open>accepted\<close>, whatever its status was; an
  accepted id that matches no ride is answered with \<^verbatim>\<open>NotFound\<close> and an
  unchanged store; an id that \<^verbatim>\<open>ObjectId\<close> rejects is answered with
  \<^verbatim>\<open>InvalidId\<close> whatever the store holds. \<^verbatim>\<open>ObjectId\<close> accepts every string
  of 24 hexadecimal digits and rejects every string of another length
  (\<open>ObjectId_hex24\<close>, \<open>ObjectId_length\<close>).
\<close>

theorem assign_driver_outcomes:
  "(ObjectId ride_id = Some oid \<and> find_one (s ''ride'') [(''_id'', ObjId oid)] = Some r \<longrightarrow>
      fst (assign_driver (Some s) ride_id body now) = Inr ok \<and>
      ride_field (snd (assign_driver (Some s) ride_id body now)) oid ''driver_id'' =
        Some (Str (driver_id body)) \<and>
      ride_field (snd (assign_driver (Some s) ride_id body now)) oid ''status'' =
        Some (Str ''accepted'')) \<and>
   (ObjectId ride_id = Some oid \<and> find_one (s ''ride'') [(''_id'', ObjId oid)] = None \<longrightarrow>
      assign_driver (Some s) ride_id body now = (Inl NotFound, Some s)) \<and>
   (ObjectId ride_id = None \<longrightarrow>
      assign_driver (Some s) ride_id body now = (Inl InvalidId, Some s))"
proof (intro conjI impI)
  assume a: "ObjectId ride_id = Some oid \<and> find_one (s ''ride'') [(''_id'', ObjId oid)] = Some r"
  let ?upd = "[(''driver_id'', Str (driver_id body)), (''status'', Str ''accepted''),
               (''updated_at'', Datetime now)]"
  from a have r: "find_one (s ''ride'') [(''_id'', ObjId oid)] = Some r" by simp
  obtain c' where c': "update_one (s ''ride'') [(''_id'', ObjId oid)] ?upd = (c', 1)"
    and f: "find_one c' [(''_id'', ObjId oid)] = Some (set_fields ?upd r)"
    using update_one_found [OF r, of ?upd] by auto
  have res: "assign_driver (Some s) ride_id body now = (Inr ok, Some (s(''ride'' := c')))"
    using a c' by (simp add: assign_driver_def)
  show "fst (assign_driver (Some s) ride_id body now) = Inr ok"
    by (simp add: res)
  show "ride_field (snd (assign_driver (Some s) ride_id body now)) oid ''driver_id'' =
          Some (Str (driver_id body))"
    by (simp add: res ride_field_def f update_conv')
  show "ride_field (snd (assign_driver (Some s) ride_id body now)) oid ''status'' =
          Some (Str ''accepted'')"
    by (simp add: res ride_field_def f update_conv')
next
  assume a: "ObjectId ride_id = Some oid \<and> find_one (s ''ride'') [(''_id'', ObjId oid)] = None"
  then have "update_one (s ''ride'') [(''_id'', ObjId oid)]
               [(''driver_id'', Str (driver_id body)), (''status'', Str ''accepted''),
                (''updated_at'', Datetime now)] = (s ''ride'', 0)"
    by (simp add: update_one_no_match)
  with a show "assign_driver (Some s) ride_id body now = (Inl NotFound, Some s)"
    by (simp add: assign_driver_def)
next
  assume "ObjectId ride_id = None"
  then show "assign_driver (Some s) ride_id body now = (Inl InvalidId, Some s)"
    by (simp add: assign_driver_def)
qed

theorem assign_driver_outcomes_witness:
  "ride_field (Some store_A) (Oid ''0123456789abcdef01234567'') ''status'' = Some (Str ''completed'') \<and>
   fst (assign_driver (Some store_A) ''0123456789ABCDEF01234567'' \<lparr>driver_id = ''d2''\<rparr> 7) = Inr ok \<and>
   ride_field (snd (assign_driver (Some store_A) ''0123456789ABCDEF01234567'' \<lparr>driver_id = ''d2''\<rparr> 7))
     (Oid ''0123456789abcdef01234567'') ''driver_id'' = Some (Str ''d2'') \<and>
   ride_field (snd (assign_driver (Some store_A) ''0123456789ABCDEF01234567'' \<lparr>driver_id = ''d2''\<rparr> 7))
     (Oid ''0123456789abcdef01234567'') ''status'' = Some (Str ''accepted'') \<and>
   assign_driver (Some store_A) ''ffffffffffffffffffffffff'' \<lparr>driver_id = ''d2''\<rparr> 7 =
     (Inl NotFound, Some store_A) \<and>
   assign_driver (Some store_A) ''not-an-id'' \<lparr>driver_id = ''d2''\<rparr> 7 =
     (Inl InvalidId, Some store_A)"
  using assign_driver_outcomes [of "''0123456789ABCDEF01234567''" "Oid ''0123456789abcdef01234567''"
          store_A ride_A "\<lparr>driver_id = ''d2''\<rparr>" 7]
        assign_driver_outcomes [of "''ffffffffffffffffffffffff''" "Oid ''ffffffffffffffffffffffff''"
          store_A ride_A "\<lparr>driver_id = ''d2''\<rparr>" 7]
        assign_driver_outcomes [of "''not-an-id''" "Oid ''ffffffffffffffffffffffff''"
          store_A ride_A "\<lparr>driver_id = ''d2''\<rparr>" 7]
        find_ride_A find_ride_F ObjectId_A ObjectId_F ObjectId_bad
  by (simp add: ride_field_def ride_A_def)

text \<open>
  C2 as stated fails: a string of 24 characters that is not an identifier, 22 digits
  followed by two blanks, is accepted by \<^verbatim>\<open>ObjectId\<close>; the store is consulted and
  the answer is \<^verbatim>\<open>NotFound\<close>, not \<^verbatim>\<open>InvalidId\<close>.
\<close>

theorem assign_driver_padded_id_counterexample:
  "\<not> list_all hexdigit ''0123456789abcdef012345  '' \<and>
   ObjectId ''0123456789abcdef012345  '' = Some (Oid ''0123456789abcdef012345'') \<and>
   assign_driver (Some store_A) ''0123456789abcdef012345  '' \<lparr>driver_id = ''d2''\<rparr> 7 =
     (Inl NotFound, Some store_A) \<and>
   fst (assign_driver (Some store_A) ''0123456789abcdef012345  '' \<lparr>driver_id = ''d2''\<rparr> 7) \<noteq>
     Inl InvalidId"
proof -
  have "update_one (store_A ''ride'') [(''_id'', ObjId (Oid ''0123456789abcdef012345''))]
          [(''driver_id'', Str ''d2''), (''status'', Str ''accepted''), (''updated_at'', Datetime 7)] =
        (store_A ''ride'', 0)"
    using find_ride_padded by (rule update_one_no_match)
  then show ?thesis
    by (simp add: assign_driver_def ObjectId_padded hexdigit_def)
qed




text \<open>
  C8. With the store configured, \<^verbatim>\<open>create_ride\<close> appends one document to the ride
  collection, built from the request, with status \<^verbatim>\<open>requested\<close> and
  \<^verbatim>\<open>driver_id\<close> unset (\<^verbatim>\<open>None\<close>), under the id the store generated, and returns
  that id as a string; when the generated id is fresh, a lookup by it finds this ride.
\<close>

theorem request_ride_creates_requested:
  "fst (request_ride (Some s) req now new_id) = Inr [(''id'', Str (str_oid new_id))] \<and>
   (\<exists>d. snd (request_ride (Some s) req now new_id) = Some (s(''ride'' := s ''ride'' @ [d])) \<and>
        map_of d ''_id'' = Some (ObjId new_id) \<and>
        map_of d ''rider_id'' = Some (Str (rider_id req)) \<and>
        map_of d ''pickup'' = Some (Str (pickup req)) \<and>
        map_of d ''dropoff'' = Some (Str (dropoff req)) \<and>
        map_of d ''status'' = Some (Str ''requested'') \<and>
        map_of d ''driver_id'' = Some Null) \<and>
   (find_one (s ''ride'') [(''_id'', ObjId new_id)] = None \<longrightarrow>
      ride_field (snd (request_ride (Some s) req now new_id)) new_id ''status'' =
        Some (Str ''requested'') \<and>
      ride_field (snd (request_ride (Some s) req now new_id)) new_id ''driver_id'' = Some Null)"
proof (intro conjI impI)
  show "fst (request_ride (Some s) req now new_id) = Inr [(''id'', Str (str_oid new_id))]"
    by (simp add: request_ride_def create_document_def)
  show "\<exists>d. snd (request_ride (Some s) req now new_id) = Some (s(''ride'' := s ''ride'' @ [d])) \<and>
        map_of d ''_id'' = Some (ObjId new_id) \<and>
        map_of d ''rider_id'' = Some (Str (rider_id req)) \<and>
        map_of d ''pickup'' = Some (Str (pickup req)) \<and>
        map_of d ''dropoff'' = Some (Str (dropoff req)) \<and>
        map_of d ''status'' = Some (Str ''requested'') \<and>
        map_of d ''driver_id'' = Some Null"
    by (rule exI [of _ "[(''_id'', ObjId new_id),
                         (''rider_id'', Str (rider_id req)),
                         (''pickup'', Str (pickup req)),
                         (''dropoff'', Str (dropoff req)),
                         (''status'', Str ''requested''), (''driver_id'', Null),
                         (''fare_estimate'', Null), (''created_at'', Datetime now),
                         (''updated_at'', Datetime now)]"])
       (simp add: request_ride_def create_document_def Ride_model_dump_def)
next
  assume fresh: "find_one (s ''ride'') [(''_id'', ObjId new_id)] = None"
  show "ride_field (snd (request_ride (Some s) req now new_id)) new_id ''status'' =
        Some (Str ''requested'')"
    using fresh
    by (simp add: request_ride_def create_document_def Ride_model_dump_def ride_field_def
          find_one_append matches_def)
  show "ride_field (snd (request_ride (Some s) req now new_id)) new_id ''driver_id'' = Some Null"
    using fresh
    by (simp add: request_ride_def create_document_def Ride_model_dump_def ride_field_def
          find_one_append matches_def)
qed

theorem request_ride_creates_requested_witness:
  "find_one (store_A ''ride'') [(''_id'', ObjId (Oid ''ffffffffffffffffffffffff''))] = None \<and>
   fst (request_ride (Some store_A) \<lparr>rider_id = ''r2'', pickup = ''C'', dropoff = ''D''\<rparr> 9
          (Oid ''ffffffffffffffffffffffff'')) = Inr [(''id'', Str ''ffffffffffffffffffffffff'')] \<and>
   ride_field (snd (request_ride (Some store_A) \<lparr>rider_id = ''r2'', pickup = ''C'', dropoff = ''D''\<rparr> 9
                      (Oid ''ffffffffffffffffffffffff'')))
     (Oid ''ffffffffffffffffffffffff'') ''status'' = Some (Str ''requested'') \<and>
   ride_field (snd (request_ride (Some store_A) \<lparr>rider_id = ''r2'', pickup = ''C'', dropoff = ''D''\<rparr> 9
                      (Oid ''ffffffffffffffffffffffff'')))
     (Oid ''ffffffffffffffffffffffff'') ''driver_id'' = Some Null"
  using request_ride_creates_requested [of store_A "\<lparr>rider_id = ''r2'', pickup = ''C'', dropoff = ''D''\<rparr>"
          9 "Oid ''ffffffffffffffffffffffff''"]
        find_ride_F
  by simp

section \<open>Listing rides\<close>

text \<open>
  C9. \<^verbatim>\<open>list_rides\<close> with the empty string as rider id behaves as with no rider id:
  the empty string is false in \<^verbatim>\<open>if rider_id:\<close>, so no filter is built, and the
  rides of every rider are the candidates: the result \<open>rs\<close> holds \<open>min 20 n\<close> of the
  \<open>n\<close> rides of the store and extends by some \<open>rest\<close> to an arrangement of all of
  them.
\<close>

theorem list_rides_empty_rider_id:
  "list_rides db (Some '''') = list_rides db None \<and>
   (\<exists>rs rest.
      list_rides (Some s) (Some '''') = (Inr rs, Some s) \<and>
      length rs = min 20 (length (s ''ride'')) \<and>
      mset (rs @ rest) = mset (map (\<lambda>d. to_str_id (Some d)) (s ''ride'')))"
proof
  show "list_rides db (Some '''') = list_rides db None"
    by (cases db) (simp_all add: list_rides_def)
  let ?sorted = "sort_desc ''created_at'' (s ''ride'')"
  let ?rs = "map (\<lambda>d. to_str_id (Some d)) (take 20 ?sorted)"
  let ?rest = "map (\<lambda>d. to_str_id (Some d)) (drop 20 ?sorted)"
  have res: "list_rides (Some s) (Some '''') = (Inr ?rs, Some s)"
    by (simp add: list_rides_def limit_def find_cursor_all)
  have len: "length ?rs = min 20 (length (s ''ride''))"
    by (simp add: sort_desc_def)
  have "?rs @ ?rest = map (\<lambda>d. to_str_id (Some d)) ?sorted"
    by (simp flip: map_append)
  then have ms: "mset (?rs @ ?rest) = mset (map (\<lambda>d. to_str_id (Some d)) (s ''ride''))"
    by (simp only: mset_map sort_desc_mset)
  from res len ms show "\<exists>rs rest.
      list_rides (Some s) (Some '''') = (Inr rs, Some s) \<and>
      length rs = min 20 (length (s ''ride'')) \<and>
      mset (rs @ rest) = mset (map (\<lambda>d. to_str_id (Some d)) (s ''ride''))"
    by blast
qed

text \<open>On the store with rides of two riders, both rides are returned.\<close>

theorem list_rides_empty_rider_id_witness:
  "\<exists>rs. list_rides (Some store_B) (Some '''') = (Inr rs, Some store_B) \<and>
        length rs = 2 \<and>
        mset rs = mset [to_str_id (Some ride_A), to_str_id (Some ride_B)]"
proof -
  obtain rs rest where res: "list_rides (Some store_B) (Some '''') = (Inr rs, Some store_B)"
    and len: "length rs = min 20 (length (store_B ''ride''))"
    and ms: "mset (rs @ rest) = mset (map (\<lambda>d. to_str_id (Some d)) (store_B ''ride''))"
    using list_rides_empty_rider_id [of None store_B] by blast
  have rides: "store_B ''ride'' = [ride_A, ride_B]" by (simp add: store_B_def)
  from len rides have l2: "length rs = 2" by simp
  from ms have "length (rs @ rest) = length (map (\<lambda>d. to_str_id (Some d)) (store_B ''ride''))"
    by (rule mset_eq_length)
  with l2 rides have "rest = []" by simp
  with ms rides have "mset rs = mset [to_str_id (Some ride_A), to_str_id (Some ride_B)]" by simp
  with res l2 show ?thesis by blast
qed

text \<open>
  C7 (as amended). With the store configured, \<^verbatim>\<open>list_rides\<close> returns the first 20
  (or all, when fewer) of the candidate rides arranged newest-created-first: the
  result \<open>rs\<close> extends by some \<open>rest\<close> to an arrangement of all candidates that
  descends in \<^verbatim>\<open>created_at\<close>. For a non-empty rider id the candidates are the
  rides with that \<^verbatim>\<open>rider_id\<close>, and every returned ride has it; for no rider id,
  or the empty one, the candidates are all rides.
\<close>

theorem list_rides_newest_first_capped:
  "\<exists>rs rest.
     list_rides (Some s) rid = (Inr rs, Some s) \<and>
     length rs \<le> 20 \<and>
     length rs = min 20 (length (rs @ rest)) \<and>
     sorted_wrt (\<lambda>a b.
         bson_key (case b of None \<Rightarrow> None | Some d \<Rightarrow> map_of d ''created_at'') \<le>
         bson_key (case a of None \<Rightarrow> None | Some d \<Rightarrow> map_of d ''created_at'')) (rs @ rest) \<and>
     (rid = Some r \<and> r \<noteq> [] \<longrightarrow>
        mset (rs @ rest) =
          mset (map (\<lambda>d. to_str_id (Some d))
                 (filter (\<lambda>d. map_of d ''rider_id'' = Some (Str r)) (s ''ride''))) \<and>
        (\<forall>x \<in> set rs. \<exists>d. x = Some d \<and> map_of d ''rider_id'' = Some (Str r))) \<and>
     (rid = None \<or> rid = Some [] \<longrightarrow>
        mset (rs @ rest) = mset (map (\<lambda>d. to_str_id (Some d)) (s ''ride'')))"
proof -
  define filter_q where
    "filter_q = (case rid of None \<Rightarrow> [] | Some r \<Rightarrow> if r \<noteq> [] then [(''rider_id'', Str r)] else [])"
  define sorted_all where "sorted_all = sort_desc ''created_at'' (find_cursor (s ''ride'') filter_q)"
  define rs where "rs = map (\<lambda>d. to_str_id (Some d)) (take 20 sorted_all)"
  define rest where "rest = map (\<lambda>d. to_str_id (Some d)) (drop 20 sorted_all)"
  have all: "rs @ rest = map (\<lambda>d. to_str_id (Some d)) sorted_all"
    by (simp add: rs_def rest_def flip: map_append)
  have res: "list_rides (Some s) rid = (Inr rs, Some s)"
    by (simp add: list_rides_def rs_def sorted_all_def filter_q_def limit_def)
  have len: "length rs \<le> 20" "length rs = min 20 (length (rs @ rest))"
    by (simp_all add: rs_def rest_def)
  have key: "(case to_str_id (Some d) of None \<Rightarrow> None | Some d' \<Rightarrow> map_of d' ''created_at'') =
             map_of d ''created_at''" for d
    by (rule to_str_id_other) simp_all
  have srt: "sorted_wrt (\<lambda>a b.
         bson_key (case b of None \<Rightarrow> None | Some d \<Rightarrow> map_of d ''created_at'') \<le>
         bson_key (case a of None \<Rightarrow> None | Some d \<Rightarrow> map_of d ''created_at'')) (rs @ rest)"
    unfolding all sorted_wrt_map key sorted_all_def by (rule sort_desc_sorted)
  have ms: "mset (rs @ rest) = mset (map (\<lambda>d. to_str_id (Some d)) (find_cursor (s ''ride'') filter_q))"
    unfolding all sorted_all_def by (simp add: sort_desc_mset)
  have flt: "mset (rs @ rest) =
          mset (map (\<lambda>d. to_str_id (Some d))
                 (filter (\<lambda>d. map_of d ''rider_id'' = Some (Str r)) (s ''ride''))) \<and>
        (\<forall>x \<in> set rs. \<exists>d. x = Some d \<and> map_of d ''rider_id'' = Some (Str r))"
    if "rid = Some r \<and> r \<noteq> []"
  proof
    from that have q: "filter_q = [(''rider_id'', Str r)]" by (simp add: filter_q_def)
    show "mset (rs @ rest) =
          mset (map (\<lambda>d. to_str_id (Some d))
                 (filter (\<lambda>d. map_of d ''rider_id'' = Some (Str r)) (s ''ride'')))"
      using ms by (simp add: q find_cursor_rider)
    show "\<forall>x \<in> set rs. \<exists>d. x = Some d \<and> map_of d ''rider_id'' = Some (Str r)"
    proof
      fix x assume "x \<in> set rs"
      then obtain d0 where d0: "d0 \<in> set (take 20 sorted_all)" and x: "x = to_str_id (Some d0)"
        by (auto simp: rs_def)
      from d0 have "d0 \<in> set sorted_all" by (rule in_set_takeD)
      then have "d0 \<in> set (find_cursor (s ''ride'') filter_q)"
        by (simp add: sorted_all_def sort_desc_def)
      then have r0: "map_of d0 ''rider_id'' = Some (Str r)"
        by (simp add: q find_cursor_rider)
      obtain d where d: "to_str_id (Some d0) = Some d"
        using to_str_id_Some by blast
      have "(case to_str_id (Some d0) of None \<Rightarrow> None | Some d' \<Rightarrow> map_of d' ''rider_id'') =
            map_of d0 ''rider_id''"
        by (rule to_str_id_other) simp_all
      with d r0 have "map_of d ''rider_id'' = Some (Str r)" by simp
      with x d show "\<exists>d. x = Some d \<and> map_of d ''rider_id'' = Some (Str r)" by simp
    qed
  qed
  have nofilter: "mset (rs @ rest) = mset (map (\<lambda>d. to_str_id (Some d)) (s ''ride''))"
    if "rid = None \<or> rid = Some []"
  proof -
    from that have "filter_q = []" by (auto simp: filter_q_def)
    with ms show ?thesis by (simp add: find_cursor_all)
  qed
  from res len srt flt nofilter show ?thesis by blast
qed

theorem list_rides_newest_first_capped_witness:
  "(\<exists>rs rest.
      list_rides (Some store_B) (Some ''r1'') = (Inr rs, Some store_B) \<and>
      length rs \<le> 20 \<and>
      mset (rs @ rest) =
        mset (map (\<lambda>d. to_str_id (Some d))
               (filter (\<lambda>d. map_of d ''rider_id'' = Some (Str ''r1'')) (store_B ''ride'')))) \<and>
   (\<exists>rs rest.
      list_rides (Some store_B) None = (Inr rs, Some store_B) \<and>
      length rs \<le> 20 \<and>
      mset (rs @ rest) = mset (map (\<lambda>d. to_str_id (Some d)) (store_B ''ride'')))"
proof
  show "\<exists>rs rest.
      list_rides (Some store_B) (Some ''r1'') = (Inr rs, Some store_B) \<and>
      length rs \<le> 20 \<and>
      mset (rs @ rest) =
        mset (map (\<lambda>d. to_str_id (Some d))
               (filter (\<lambda>d. map_of d ''rider_id'' = Some (Str ''r1'')) (store_B ''ride'')))"
  proof -
    obtain rs rest where
      "list_rides (Some store_B) (Some ''r1'') = (Inr rs, Some store_B)" "length rs \<le> 20"
      "Some ''r1'' = Some ''r1'' \<and> ''r1'' \<noteq> [] \<longrightarrow>
        mset (rs @ rest) =
          mset (map (\<lambda>d. to_str_id (Some d))
                 (filter (\<lambda>d. map_of d ''rider_id'' = Some (Str ''r1'')) (store_B ''ride''))) \<and>
        (\<forall>x \<in> set rs. \<exists>d. x = Some d \<and> map_of d ''rider_id'' = Some (Str ''r1''))"
      using list_rides_newest_first_capped [of store_B "Some ''r1''" "''r1''"] by blast
    then show ?thesis by (intro exI [of _ rs] exI [of _ rest]) simp
  qed
  show "\<exists>rs rest.
      list_rides (Some store_B) None = (Inr rs, Some store_B) \<and>
      length rs \<le> 20 \<and>
      mset (rs @ rest) = mset (map (\<lambda>d. to_str_id (Some d)) (store_B ''ride''))"
  proof -
    obtain rs rest where
      "list_rides (Some store_B) None = (Inr rs, Some store_B)" "length rs \<le> 20"
      "None = None \<or> None = Some [] \<longrightarrow>
        mset (rs @ rest) = mset (map (\<lambda>d. to_str_id (Some d)) (store_B ''ride''))"
      using list_rides_newest_first_capped [of store_B None "''r1''"] by blast
    then show ?thesis by (intro exI [of _ rs] exI [of _ rest]) simp
  qed
qed

text \<open>
  C7 as stated fails where the supplied rider id is the empty string: no filter is
  applied, and rides of other riders are returned (newest first).
\<close>

theorem list_rides_empty_rider_id_counterexample:
  "fst (list_rides (Some store_B) (Some '''')) =
     Inr [Some [(''rider_id'', Str ''r2''), (''pickup'', Str ''C''), (''dropoff'', Str ''D''),
                (''status'', Str ''requested''), (''driver_id'', Null),
                (''fare_estimate'', Null), (''created_at'', Datetime 9),
                (''updated_at'', Datetime 9), (''id'', Str ''aaaaaaaaaaaaaaaaaaaaaaaa'')],
          Some [(''rider_id'', Str ''r1''), (''pickup'', Str ''A''), (''dropoff'', Str ''B''),
                (''status'', Str ''completed''), (''driver_id'', Str ''d1''),
                (''fare_estimate'', Null), (''created_at'', Datetime 5),
                (''updated_at'', Datetime 6), (''id'', Str ''0123456789abcdef01234567'')]] \<and>
   Str ''r2'' \<noteq> Str ''''"
  by (simp add: list_rides_def store_B_def ride_A_def ride_B_def find_cursor_def matches_def
        sort_desc_def limit_def)

section \<open>The driver status upsert\<close>

text \<open>
  C4. With the store configured, \<^verbatim>\<open>report_status\<close> keeps the invariant that a user
  has at most one DriverStatus record, for every user. If a record for the reported
  user exists (in a collection with proper ids), the call succeeds, adds no record,
  leaves every \<^verbatim>\<open>_id\<close> in place and the user's record holds the reported
  availability; if none exists, one record is appended for the user under the
  generated id. Starting with at most one record for the user and a fresh generated
  id, after two reports for the same user exactly one record exists for the user and
  it holds the availability of the second report.
\<close>

theorem report_status_at_most_one:
  "(length (find_cursor (s ''driverstatus'') [(''user_id'', Str u')]) \<le> 1 \<longrightarrow>
      length (find_cursor (driverstatus_of (snd (update_driver_status (Some s) body now new_id)))
                [(''user_id'', Str u')]) \<le> 1) \<and>
   (wf_ids (s ''driverstatus'') \<and>
    find_one (s ''driverstatus'') [(''user_id'', Str (user_id body))] = Some e \<longrightarrow>
      fst (update_driver_status (Some s) body now new_id) = Inr ok \<and>
      map (\<lambda>d. map_of d ''_id'') (driverstatus_of (snd (update_driver_status (Some s) body now new_id))) =
        map (\<lambda>d. map_of d ''_id'') (s ''driverstatus'') \<and>
      (\<exists>e'. find_one (driverstatus_of (snd (update_driver_status (Some s) body now new_id)))
                [(''user_id'', Str (user_id body))] = Some e' \<and>
            map_of e' ''_id'' = map_of e ''_id'' \<and>
            map_of e' ''is_available'' = Some (Bool (is_available body)))) \<and>
   (find_one (s ''driverstatus'') [(''user_id'', Str (user_id body))] = None \<longrightarrow>
      fst (update_driver_status (Some s) body now new_id) = Inr ok \<and>
      (\<exists>d. driverstatus_of (snd (update_driver_status (Some s) body now new_id)) =
              s ''driverstatus'' @ [d] \<and>
           map_of d ''_id'' = Some (ObjId new_id) \<and>
           map_of d ''user_id'' = Some (Str (user_id body)) \<and>
           map_of d ''is_available'' = Some (Bool (is_available body)))) \<and>
   (wf_ids (s ''driverstatus'') \<and>
    find_one (s ''driverstatus'') [(''_id'', ObjId new_id)] = None \<and>
    length (find_cursor (s ''driverstatus'') [(''user_id'', Str (user_id body))]) \<le> 1 \<and>
    user_id body2 = user_id body \<longrightarrow>
      length (find_cursor
                (driverstatus_of (snd (update_driver_status
                   (snd (update_driver_status (Some s) body now new_id)) body2 now2 new_id2)))
                [(''user_id'', Str (user_id body))]) = 1 \<and>
      (\<exists>e2. find_one
                (driverstatus_of (snd (update_driver_status
                   (snd (update_driver_status (Some s) body now new_id)) body2 now2 new_id2)))
                [(''user_id'', Str (user_id body))] = Some e2 \<and>
            map_of e2 ''is_available'' = Some (Bool (is_available body2))))"
proof (intro conjI impI)
  let ?ds = "s ''driverstatus''"
  let ?q = "[(''user_id'', Str (user_id body))]"
  let ?r = "update_driver_status (Some s) body now new_id"
  let ?new = "[(''_id'', ObjId new_id), (''user_id'', Str (user_id body)),
               (''is_available'', Bool (is_available body)), (''lat'', opt_float (lat body)),
               (''lng'', opt_float (lng body)), (''created_at'', Datetime now),
               (''updated_at'', Datetime now)]"
  {
    assume le: "length (find_cursor ?ds [(''user_id'', Str u')]) \<le> 1"
    show "length (find_cursor (driverstatus_of (snd ?r)) [(''user_id'', Str u')]) \<le> 1"
    proof (cases "find_one ?ds ?q")
      case None
      then have none: "find_cursor ?ds ?q = []" by (simp add: find_one_None_iff)
      have "driverstatus_of (snd ?r) = ?ds @ [?new]"
        by (simp add: update_driver_status_new [where s = s and body = body, OF None] driverstatus_of_def)
      then show ?thesis
        using le none by (cases "u' = user_id body") (simp_all add: count_append matches_Str)
    next
      case (Some e)
      show ?thesis
      proof (cases "map_of e ''_id''")
        case None
        from Some have "matches ?q e" by (auto dest: find_one_in_set)
        then have "e \<noteq> []" by (rule matches_nonempty)
        with Some None have "?r = (Inl (KeyError ''_id''), Some s)"
          by (simp add: update_driver_status_def)
        with le show ?thesis by (simp add: driverstatus_of_def)
      next
        case (Some i)
        have "length (find_cursor (fst (update_one ?ds [(''_id'', i)]
                 [(''is_available'', Bool (is_available body)), (''lat'', opt_float (lat body)),
                  (''lng'', opt_float (lng body)), (''updated_at'', Datetime now)]))
                 [(''user_id'', Str u')]) = length (find_cursor ?ds [(''user_id'', Str u')])"
          by (rule update_one_count) simp
        with le show ?thesis
          by (simp add: update_driver_status_found [where s = s and body = body, OF \<open>find_one ?ds ?q = Some e\<close> Some]
                driverstatus_of_def)
      qed
    qed
  }
  {
    assume a: "wf_ids ?ds \<and> find_one ?ds ?q = Some e"
    then obtain c' where c': "?r = (Inr ok, Some (s(''driverstatus'' := c')))"
      and f': "find_one c' ?q =
                 Some (set_fields [(''is_available'', Bool (is_available body)),
                                   (''lat'', opt_float (lat body)), (''lng'', opt_float (lng body)),
                                   (''updated_at'', Datetime now)] e)"
      and ids: "map (\<lambda>d. map_of d ''_id'') c' = map (\<lambda>d. map_of d ''_id'') ?ds"
      using report_found [of s body e now new_id] by blast
    show "fst ?r = Inr ok" by (simp add: c')
    show "map (\<lambda>d. map_of d ''_id'') (driverstatus_of (snd ?r)) = map (\<lambda>d. map_of d ''_id'') ?ds"
      by (simp add: c' driverstatus_of_def ids)
    show "\<exists>e'. find_one (driverstatus_of (snd ?r)) ?q = Some e' \<and>
            map_of e' ''_id'' = map_of e ''_id'' \<and>
            map_of e' ''is_available'' = Some (Bool (is_available body))"
      by (simp add: c' driverstatus_of_def f' update_conv')
  }
  {
    assume none: "find_one ?ds ?q = None"
    show "fst ?r = Inr ok"
      by (simp add: update_driver_status_new [where s = s and body = body, OF none])
    show "\<exists>d. driverstatus_of (snd ?r) = ?ds @ [d] \<and>
           map_of d ''_id'' = Some (ObjId new_id) \<and>
           map_of d ''user_id'' = Some (Str (user_id body)) \<and>
           map_of d ''is_available'' = Some (Bool (is_available body))"
      by (rule exI [of _ ?new]) (simp add: update_driver_status_new [where s = s and body = body, OF none] driverstatus_of_def)
  }
  {
    assume a: "wf_ids ?ds \<and> find_one ?ds [(''_id'', ObjId new_id)] = None \<and>
               length (find_cursor ?ds ?q) \<le> 1 \<and> user_id body2 = user_id body"
    let ?r2 = "update_driver_status (snd ?r) body2 now2 new_id2"
    have first: "\<exists>s1 e1. ?r = (Inr ok, Some s1) \<and> wf_ids (s1 ''driverstatus'') \<and>
                   find_one (s1 ''driverstatus'') ?q = Some e1 \<and>
                   length (find_cursor (s1 ''driverstatus'') ?q) = 1"
    proof (cases "find_one ?ds ?q")
      case None
      then have none: "find_cursor ?ds ?q = []" by (simp add: find_one_None_iff)
      have r: "?r = (Inr ok, Some (s(''driverstatus'' := ?ds @ [?new])))"
        by (rule update_driver_status_new [where s = s and body = body, OF None])
      have "wf_ids (?ds @ [?new])"
        using a by (intro wf_ids_append [of _ new_id]) simp_all
      moreover have "find_one (?ds @ [?new]) ?q = Some ?new"
        by (simp add: find_one_append None matches_Str)
      moreover have "length (find_cursor (?ds @ [?new]) ?q) = 1"
        by (simp add: count_append none matches_Str)
      ultimately show ?thesis using r by simp
    next
      case (Some e)
      with a obtain c' where "?r = (Inr ok, Some (s(''driverstatus'' := c')))" "wf_ids c'"
        "find_one c' ?q =
           Some (set_fields [(''is_available'', Bool (is_available body)),
                             (''lat'', opt_float (lat body)), (''lng'', opt_float (lng body)),
                             (''updated_at'', Datetime now)] e)"
        "length (find_cursor c' ?q) = length (find_cursor ?ds ?q)"
        using report_found [of s body e now new_id] by blast
      moreover from this a have "length (find_cursor c' ?q) = 1"
        by (intro count_le_1_find_one) simp_all
      ultimately show ?thesis by simp
    qed
    then obtain s1 e1 where r1: "?r = (Inr ok, Some s1)" and wf1: "wf_ids (s1 ''driverstatus'')"
      and f1: "find_one (s1 ''driverstatus'') ?q = Some e1"
      and c1: "length (find_cursor (s1 ''driverstatus'') ?q) = 1"
      by blast
    from a f1 have f1': "find_one (s1 ''driverstatus'') [(''user_id'', Str (user_id body2))] = Some e1"
      by simp
    obtain c2 where r2: "update_driver_status (Some s1) body2 now2 new_id2 =
                           (Inr ok, Some (s1(''driverstatus'' := c2)))"
      and f2: "find_one c2 [(''user_id'', Str (user_id body2))] =
                 Some (set_fields [(''is_available'', Bool (is_available body2)),
                                   (''lat'', opt_float (lat body2)), (''lng'', opt_float (lng body2)),
                                   (''updated_at'', Datetime now2)] e1)"
      and c2: "length (find_cursor c2 ?q) = length (find_cursor (s1 ''driverstatus'') ?q)"
      using report_found [where s = s1 and body = body2, OF wf1 f1', of now2 new_id2] by blast
    show "length (find_cursor (driverstatus_of (snd ?r2)) ?q) = 1"
      by (simp add: r1 r2 driverstatus_of_def c2 c1)
    show "\<exists>e2. find_one (driverstatus_of (snd ?r2)) ?q = Some e2 \<and>
            map_of e2 ''is_available'' = Some (Bool (is_available body2))"
      using f2 a by (simp add: r1 r2 driverstatus_of_def update_conv')
  }
qed

theorem report_status_at_most_one_witness:
  "wf_ids (store_D ''driverstatus'') \<and>
   find_one (store_D ''driverstatus'') [(''_id'', ObjId (Oid ''bbbbbbbbbbbbbbbbbbbbbb09''))] = None \<and>
   length (find_cursor (store_D ''driverstatus'') [(''user_id'', Str ''cccccccccccccccccccccc04'')]) \<le> 1 \<and>
   length (find_cursor
             (driverstatus_of (snd (update_driver_status
                (snd (update_driver_status (Some store_D)
                   \<lparr>user_id = ''cccccccccccccccccccccc04'', is_available = True,
                    lat = Some 1, lng = Some 2\<rparr> 3 (Oid ''bbbbbbbbbbbbbbbbbbbbbb09'')))
                \<lparr>user_id = ''cccccccccccccccccccccc04'', is_available = False,
                 lat = None, lng = None\<rparr> 4 (Oid ''bbbbbbbbbbbbbbbbbbbbbb0a''))))
             [(''user_id'', Str ''cccccccccccccccccccccc04'')]) = 1 \<and>
   (\<exists>e2. find_one
             (driverstatus_of (snd (update_driver_status
                (snd (update_driver_status (Some store_D)
                   \<lparr>user_id = ''cccccccccccccccccccccc04'', is_available = True,
                    lat = Some 1, lng = Some 2\<rparr> 3 (Oid ''bbbbbbbbbbbbbbbbbbbbbb09'')))
                \<lparr>user_id = ''cccccccccccccccccccccc04'', is_available = False,
                 lat = None, lng = None\<rparr> 4 (Oid ''bbbbbbbbbbbbbbbbbbbbbb0a''))))
             [(''user_id'', Str ''cccccccccccccccccccccc04'')] = Some e2 \<and>
         map_of e2 ''is_available'' = Some (Bool False)) \<and>
   find_one (store_D ''driverstatus'') [(''user_id'', Str ''cccccccccccccccccccccc01'')] = Some status_1 \<and>
   fst (update_driver_status (Some store_D)
          \<lparr>user_id = ''cccccccccccccccccccccc01'', is_available = False, lat = None, lng = None\<rparr>
          4 (Oid ''bbbbbbbbbbbbbbbbbbbbbb0a'')) = Inr ok \<and>
   map (\<lambda>d. map_of d ''_id'')
     (driverstatus_of (snd (update_driver_status (Some store_D)
          \<lparr>user_id = ''cccccccccccccccccccccc01'', is_available = False, lat = None, lng = None\<rparr>
          4 (Oid ''bbbbbbbbbbbbbbbbbbbbbb0a'')))) =
     map (\<lambda>d. map_of d ''_id'') (store_D ''driverstatus'')"
proof -
  have wf: "wf_ids (store_D ''driverstatus'')"
    by (simp add: wf_ids_def store_D_def status_1_def)
  have fresh: "find_one (store_D ''driverstatus'') [(''_id'', ObjId (Oid ''bbbbbbbbbbbbbbbbbbbbbb09''))] = None"
    by (simp add: store_D_def status_1_def find_one_def find_cursor_def matches_def)
  have cnt: "length (find_cursor (store_D ''driverstatus'') [(''user_id'', Str ''cccccccccccccccccccccc04'')]) \<le> 1"
    by (simp add: store_D_def status_1_def find_cursor_def matches_def)
  have ex: "find_one (store_D ''driverstatus'') [(''user_id'', Str ''cccccccccccccccccccccc01'')] = Some status_1"
    by (simp add: store_D_def status_1_def find_one_def find_cursor_def matches_def)
  show ?thesis
    using wf fresh cnt ex
      report_status_at_most_one [of store_D "''cccccccccccccccccccccc04''"
        "\<lparr>user_id = ''cccccccccccccccccccccc04'', is_available = True, lat = Some 1, lng = Some 2\<rparr>"
        3 "Oid ''bbbbbbbbbbbbbbbbbbbbbb09''" status_1
        "\<lparr>user_id = ''cccccccccccccccccccccc04'', is_available = False, lat = None, lng = None\<rparr>"
        4 "Oid ''bbbbbbbbbbbbbbbbbbbbbb0a''"]
      report_status_at_most_one [of store_D "''cccccccccccccccccccccc01''"
        "\<lparr>user_id = ''cccccccccccccccccccccc01'', is_available = False, lat = None, lng = None\<rparr>"
        4 "Oid ''bbbbbbbbbbbbbbbbbbbbbb0a''" status_1
        "\<lparr>user_id = ''cccccccccccccccccccccc01'', is_available = False, lat = None, lng = None\<rparr>"
        4 "Oid ''bbbbbbbbbbbbbbbbbbbbbb0a''"]
    by simp
qed

text \<open>
  C10. When \<^verbatim>\<open>report_status\<close> finds a record for the user, no record is added or
  removed and in every record all fields but \<^verbatim>\<open>is_available\<close>, \<^verbatim>\<open>lat\<close>,
  \<^verbatim>\<open>lng\<close> and \<^verbatim>\<open>updated_at\<close> keep their values, \<^verbatim>\<open>user_id\<close> and \<^verbatim>\<open>_id\<close>
  among them; in a collection with proper ids the call succeeds and the record found
  is replaced by itself with exactly these four fields written.
\<close>

theorem report_status_update_frame:
  assumes "find_one (s ''driverstatus'') [(''user_id'', Str (user_id body))] = Some e"
  shows "length (driverstatus_of (snd (update_driver_status (Some s) body now new_id))) =
           length (s ''driverstatus'') \<and>
         (\<forall>j < length (s ''driverstatus'').
            map_of (driverstatus_of (snd (update_driver_status (Some s) body now new_id)) ! j) ''user_id'' =
              map_of (s ''driverstatus'' ! j) ''user_id'' \<and>
            map_of (driverstatus_of (snd (update_driver_status (Some s) body now new_id)) ! j) ''_id'' =
              map_of (s ''driverstatus'' ! j) ''_id'' \<and>
            (\<forall>k. k \<notin> set [''is_available'', ''lat'', ''lng'', ''updated_at''] \<longrightarrow>
               map_of (driverstatus_of (snd (update_driver_status (Some s) body now new_id)) ! j) k =
                 map_of (s ''driverstatus'' ! j) k)) \<and>
         (wf_ids (s ''driverstatus'') \<longrightarrow>
            fst (update_driver_status (Some s) body now new_id) = Inr ok \<and>
            (\<exists>j < length (s ''driverstatus'').
               s ''driverstatus'' ! j = e \<and>
               driverstatus_of (snd (update_driver_status (Some s) body now new_id)) =
                 (s ''driverstatus'')
                   [j := set_fields [(''is_available'', Bool (is_available body)),
                                     (''lat'', opt_float (lat body)), (''lng'', opt_float (lng body)),
                                     (''updated_at'', Datetime now)] e]))"
proof -
  let ?ds = "s ''driverstatus''"
  let ?q = "[(''user_id'', Str (user_id body))]"
  let ?r = "update_driver_status (Some s) body now new_id"
  let ?upd = "[(''is_available'', Bool (is_available body)), (''lat'', opt_float (lat body)),
               (''lng'', opt_float (lng body)), (''updated_at'', Datetime now)]"
  have frame: "length (driverstatus_of (snd ?r)) = length ?ds \<and>
         (\<forall>j < length ?ds. \<forall>k. k \<notin> set [''is_available'', ''lat'', ''lng'', ''updated_at''] \<longrightarrow>
               map_of (driverstatus_of (snd ?r) ! j) k = map_of (?ds ! j) k)"
  proof (cases "map_of e ''_id''")
    case None
    from assms have "matches ?q e" by (auto dest: find_one_in_set)
    then have "e \<noteq> []" by (rule matches_nonempty)
    with assms None have "?r = (Inl (KeyError ''_id''), Some s)"
      by (simp add: update_driver_status_def)
    then show ?thesis by (simp add: driverstatus_of_def)
  next
    case (Some i)
    have r: "driverstatus_of (snd ?r) = fst (update_one ?ds [(''_id'', i)] ?upd)"
      by (simp add: update_driver_status_found [where s = s and body = body, OF assms Some]
            driverstatus_of_def)
    show ?thesis
      unfolding r by (auto simp: update_one_length intro!: update_one_frame)
  qed
  have upd: "fst ?r = Inr ok \<and>
            (\<exists>j < length ?ds. ?ds ! j = e \<and> driverstatus_of (snd ?r) = ?ds[j := set_fields ?upd e])"
    if wf: "wf_ids ?ds"
  proof -
    from assms have e: "e \<in> set ?ds" by (auto dest: find_one_in_set)
    with wf obtain i where i: "map_of e ''_id'' = Some i"
      by (auto simp: wf_ids_def list_all_iff)
    have byid: "find_one ?ds [(''_id'', i)] = Some e"
      using wf e i by (rule wf_ids_find_by_id)
    have r: "?r = (Inr ok, Some (s(''driverstatus'' := fst (update_one ?ds [(''_id'', i)] ?upd))))"
      by (rule update_driver_status_found [where s = s and body = body, OF assms i])
    from update_one_list_update [OF byid, of ?upd] r show ?thesis
      by (simp add: driverstatus_of_def)
  qed
  from frame upd show ?thesis by simp
qed

theorem report_status_update_frame_witness:
  "find_one (store_D ''driverstatus'') [(''user_id'', Str ''cccccccccccccccccccccc01'')] = Some status_1 \<and>
   wf_ids (store_D ''driverstatus'') \<and>
   (0::nat) < length (store_D ''driverstatus'') \<and>
   fst (update_driver_status (Some store_D)
          \<lparr>user_id = ''cccccccccccccccccccccc01'', is_available = False, lat = None, lng = None\<rparr>
          4 (Oid ''bbbbbbbbbbbbbbbbbbbbbb0a'')) = Inr ok \<and>
   length (driverstatus_of (snd (update_driver_status (Some store_D)
          \<lparr>user_id = ''cccccccccccccccccccccc01'', is_available = False, lat = None, lng = None\<rparr>
          4 (Oid ''bbbbbbbbbbbbbbbbbbbbbb0a'')))) = 1 \<and>
   map_of (driverstatus_of (snd (update_driver_status (Some store_D)
          \<lparr>user_id = ''cccccccccccccccccccccc01'', is_available = False, lat = None, lng = None\<rparr>
          4 (Oid ''bbbbbbbbbbbbbbbbbbbbbb0a''))) ! 0) ''user_id'' =
     Some (Str ''cccccccccccccccccccccc01'') \<and>
   map_of (driverstatus_of (snd (update_driver_status (Some store_D)
          \<lparr>user_id = ''cccccccccccccccccccccc01'', is_available = False, lat = None, lng = None\<rparr>
          4 (Oid ''bbbbbbbbbbbbbbbbbbbbbb0a''))) ! 0) ''_id'' =
     Some (ObjId (Oid ''bbbbbbbbbbbbbbbbbbbbbb01''))"
proof -
  have ex: "find_one (store_D ''driverstatus'') [(''user_id'', Str ''cccccccccccccccccccccc01'')] = Some status_1"
    by (simp add: store_D_def status_1_def find_one_def find_cursor_def matches_def)
  have ex': "find_one (store_D ''driverstatus'')
               [(''user_id'', Str (user_id \<lparr>user_id = ''cccccccccccccccccccccc01'', is_available = False,
                                          lat = None, lng = None\<rparr>))] = Some status_1"
    using ex by simp
  have wf: "wf_ids (store_D ''driverstatus'')"
    by (simp add: wf_ids_def store_D_def status_1_def)
  have len: "length (store_D ''driverstatus'') = 1" "store_D ''driverstatus'' ! 0 = status_1"
    by (simp_all add: store_D_def)
  show ?thesis
    using report_status_update_frame
            [where s = store_D
               and body = "\<lparr>user_id = ''cccccccccccccccccccccc01'', is_available = False,
                           lat = None, lng = None\<rparr>",
             OF ex', of 4 "Oid ''bbbbbbbbbbbbbbbbbbbbbb0a''"] ex wf len
    by (simp add: status_1_def)
qed

section \<open>The driver directory\<close>

text \<open>
  C5. With the store configured and every user document under an ObjectId,
  \<^verbatim>\<open>list_available_drivers\<close> succeeds and returns, in store order, one profile for
  each user with role \<^verbatim>\<open>driver\<close> and \<^verbatim>\<open>is_active\<close> true and no other: apart
  from its \<^verbatim>\<open>status\<close> entry, each profile is that user's document as
  \<^verbatim>\<open>to_str_id\<close> renders it, and every profile has role \<^verbatim>\<open>driver\<close> and
  \<^verbatim>\<open>is_active\<close> true.
\<close>

theorem list_available_drivers_active_drivers:
  assumes "list_all has_oid (s ''user'')"
  shows "\<exists>ps. list_available_drivers (Some s) = (Inr ps, Some s) \<and>
           map (\<lambda>p. Some (AList.delete ''status'' p)) ps =
             map (\<lambda>d. map_option (\<lambda>p. AList.delete ''status'' (plain p)) (to_str_id (Some d)))
               (filter (\<lambda>d. map_of d ''role'' = Some (Str ''driver'') \<and>
                            map_of d ''is_active'' = Some (Bool True)) (s ''user'')) \<and>
           (\<forall>p \<in> set ps. map_of p ''role'' = Some (Plain (Str ''driver'')) \<and>
                          map_of p ''is_active'' = Some (Plain (Bool True)))"
proof -
  let ?active = "\<lambda>d. map_of d ''role'' = Some (Str ''driver'') \<and> map_of d ''is_active'' = Some (Bool True)"
  let ?prof = "\<lambda>d. case map_of d ''_id'' of
                      Some (ObjId i) \<Rightarrow>
                        AList.update ''status''
                          (status_and (find_one (s ''driverstatus'') [(''user_id'', Str (str_oid i))]))
                          (plain (AList.update ''id'' (Str (str_oid i)) (AList.delete ''_id'' d)))
                    | _ \<Rightarrow> []"
  let ?drivers = "filter ?active (s ''user'')"
  have cur: "find_cursor (s ''user'') [(''role'', Str ''driver''), (''is_active'', Bool True)] = ?drivers"
    by (rule find_cursor_active_drivers)
  from assms have oids: "list_all has_oid ?drivers"
    by (simp add: list_all_iff)
  have res: "list_available_drivers (Some s) = (Inr (map ?prof ?drivers), Some s)"
    by (simp add: list_available_drivers_def cur drivers_loop_profiles [OF oids])
  have one: "Some (AList.delete ''status'' (?prof d)) =
               map_option (\<lambda>p. AList.delete ''status'' (plain p)) (to_str_id (Some d)) \<and>
             map_of (?prof d) ''role'' = Some (Plain (Str ''driver'')) \<and>
             map_of (?prof d) ''is_active'' = Some (Plain (Bool True))"
    if "d \<in> set ?drivers" for d
  proof -
    from that oids obtain i where i: "map_of d ''_id'' = Some (ObjId i)"
      by (auto simp: list_all_iff has_oid_iff)
    from that have "?active d" by simp
    with i show ?thesis
      by (simp add: delete_update_same update_conv' map_of_plain)
  qed
  have "map (\<lambda>p. Some (AList.delete ''status'' p)) (map ?prof ?drivers) =
        map (\<lambda>d. map_option (\<lambda>p. AList.delete ''status'' (plain p)) (to_str_id (Some d))) ?drivers"
    unfolding map_map comp_def by (rule map_cong [OF refl]) (use one in blast)
  moreover have "\<forall>p \<in> set (map ?prof ?drivers).
                   map_of p ''role'' = Some (Plain (Str ''driver'')) \<and>
                   map_of p ''is_active'' = Some (Plain (Bool True))"
    using one by (auto simp del: set_filter)
  ultimately show ?thesis using res by blast
qed

theorem list_available_drivers_active_drivers_witness:
  "list_all has_oid (store_D ''user'') \<and>
   (\<exists>ps. list_available_drivers (Some store_D) = (Inr ps, Some store_D) \<and>
         map (\<lambda>p. Some (AList.delete ''status'' p)) ps =
           map (\<lambda>d. map_option (\<lambda>p. AList.delete ''status'' (plain p)) (to_str_id (Some d)))
             [user_1, user_4])"
proof -
  have oids: "list_all has_oid (store_D ''user'')"
    by (simp add: has_oid_def store_D_def user_1_def user_2_def user_3_def user_4_def)
  have act: "filter (\<lambda>d. map_of d ''role'' = Some (Str ''driver'') \<and>
                          map_of d ''is_active'' = Some (Bool True)) (store_D ''user'') =
             [user_1, user_4]"
    by (simp add: store_D_def user_1_def user_2_def user_3_def user_4_def)
  obtain ps where "list_available_drivers (Some store_D) = (Inr ps, Some store_D)"
    and "map (\<lambda>p. Some (AList.delete ''status'' p)) ps =
           map (\<lambda>d. map_option (\<lambda>p. AList.delete ''status'' (plain p)) (to_str_id (Some d)))
             (filter (\<lambda>d. map_of d ''role'' = Some (Str ''driver'') \<and>
                          map_of d ''is_active'' = Some (Bool True)) (store_D ''user''))"
    using list_available_drivers_active_drivers [where s = store_D, OF oids] by blast
  then show ?thesis
    using oids unfolding act by blast
qed

text \<open>
  C6 (as amended). With the store configured and every user document under an
  ObjectId, the profile of each returned driver carries the driver's id as a string
  and, as \<^verbatim>\<open>status\<close>, the first DriverStatus record in store order whose
  \<^verbatim>\<open>user_id\<close> is that string, without its \<^verbatim>\<open>_id\<close>, or \<^verbatim>\<open>None\<close> when there is
  no such record. When at most one record per user exists, the first record is the
  only one, hence the latest report.
\<close>

theorem list_available_drivers_status_first_match:
  assumes "list_all has_oid (s ''user'')"
  shows "\<exists>ps. list_available_drivers (Some s) = (Inr ps, Some s) \<and>
           length ps =
             length (find_cursor (s ''user'') [(''role'', Str ''driver''), (''is_active'', Bool True)]) \<and>
           (\<forall>j < length ps. \<exists>i.
              map_of (find_cursor (s ''user'') [(''role'', Str ''driver''), (''is_active'', Bool True)] ! j)
                ''_id'' = Some (ObjId i) \<and>
              map_of (ps ! j) ''id'' = Some (Plain (Str (str_oid i))) \<and>
              map_of (ps ! j) ''status'' =
                Some (case find_cursor (s ''driverstatus'') [(''user_id'', Str (str_oid i))] of
                        [] \<Rightarrow> Plain Null
                      | st # rest \<Rightarrow> Nested (filter (\<lambda>(k, v). k \<noteq> ''_id'') st)))"
proof -
  let ?prof = "\<lambda>d. case map_of d ''_id'' of
                      Some (ObjId i) \<Rightarrow>
                        AList.update ''status''
                          (status_and (find_one (s ''driverstatus'') [(''user_id'', Str (str_oid i))]))
                          (plain (AList.update ''id'' (Str (str_oid i)) (AList.delete ''_id'' d)))
                    | _ \<Rightarrow> []"
  let ?drivers = "find_cursor (s ''user'') [(''role'', Str ''driver''), (''is_active'', Bool True)]"
  from assms have oids: "list_all has_oid ?drivers"
    by (simp add: list_all_iff find_cursor_def)
  have res: "list_available_drivers (Some s) = (Inr (map ?prof ?drivers), Some s)"
    by (simp add: list_available_drivers_def drivers_loop_profiles [OF oids])
  have one: "\<exists>i. map_of (?drivers ! j) ''_id'' = Some (ObjId i) \<and>
              map_of (map ?prof ?drivers ! j) ''id'' = Some (Plain (Str (str_oid i))) \<and>
              map_of (map ?prof ?drivers ! j) ''status'' =
                Some (case find_cursor (s ''driverstatus'') [(''user_id'', Str (str_oid i))] of
                        [] \<Rightarrow> Plain Null
                      | st # rest \<Rightarrow> Nested (filter (\<lambda>(k, v). k \<noteq> ''_id'') st))"
    if j: "j < length ?drivers" for j
  proof -
    from j have "?drivers ! j \<in> set ?drivers" by (rule nth_mem)
    with oids obtain i where i: "map_of (?drivers ! j) ''_id'' = Some (ObjId i)"
      by (auto simp: list_all_iff has_oid_iff)
    have "map_of (?prof (?drivers ! j)) ''id'' = Some (Plain (Str (str_oid i)))"
      by (simp add: i update_conv' map_of_plain)
    moreover have "map_of (?prof (?drivers ! j)) ''status'' =
                Some (case find_cursor (s ''driverstatus'') [(''user_id'', Str (str_oid i))] of
                        [] \<Rightarrow> Plain Null
                      | st # rest \<Rightarrow> Nested (filter (\<lambda>(k, v). k \<noteq> ''_id'') st))"
      by (simp add: i update_conv' status_and_find_one)
    ultimately show ?thesis using i j by (simp only: nth_map) blast
  qed
  then have "\<forall>j < length (map ?prof ?drivers). \<exists>i.
              map_of (?drivers ! j) ''_id'' = Some (ObjId i) \<and>
              map_of (map ?prof ?drivers ! j) ''id'' = Some (Plain (Str (str_oid i))) \<and>
              map_of (map ?prof ?drivers ! j) ''status'' =
                Some (case find_cursor (s ''driverstatus'') [(''user_id'', Str (str_oid i))] of
                        [] \<Rightarrow> Plain Null
                      | st # rest \<Rightarrow> Nested (filter (\<lambda>(k, v). k \<noteq> ''_id'') st))"
    by simp
  moreover have "length (map ?prof ?drivers) = length ?drivers" by simp
  ultimately show ?thesis using res by blast
qed

theorem list_available_drivers_status_first_match_witness:
  "list_all has_oid (store_D ''user'') \<and>
   (\<exists>ps. list_available_drivers (Some store_D) = (Inr ps, Some store_D) \<and> length ps = 2 \<and>
         map_of (ps ! 0) ''id'' = Some (Plain (Str ''cccccccccccccccccccccc01'')) \<and>
         map_of (ps ! 0) ''status'' =
           Some (Nested [(''user_id'', Str ''cccccccccccccccccccccc01''),
                         (''is_available'', Bool True), (''lat'', Float 1), (''lng'', Float 2),
                         (''created_at'', Datetime 1), (''updated_at'', Datetime 1)]) \<and>
         map_of (ps ! 1) ''id'' = Some (Plain (Str ''cccccccccccccccccccccc04'')) \<and>
         map_of (ps ! 1) ''status'' = Some (Plain Null))"
proof -
  have oids: "list_all has_oid (store_D ''user'')"
    by (simp add: has_oid_def store_D_def user_1_def user_2_def user_3_def user_4_def)
  have drivers: "find_cursor (store_D ''user'') [(''role'', Str ''driver''), (''is_active'', Bool True)] =
                   [user_1, user_4]"
    by (simp add: find_cursor_active_drivers)
       (simp add: store_D_def user_1_def user_2_def user_3_def user_4_def)
  have st1: "find_cursor (store_D ''driverstatus'') [(''user_id'', Str ''cccccccccccccccccccccc01'')] =
               [status_1]"
    by (simp add: store_D_def status_1_def find_cursor_def matches_def)
  have st4: "find_cursor (store_D ''driverstatus'') [(''user_id'', Str ''cccccccccccccccccccccc04'')] = []"
    by (simp add: store_D_def status_1_def find_cursor_def matches_def)
  obtain ps where res: "list_available_drivers (Some store_D) = (Inr ps, Some store_D)"
    and len: "length ps = length [user_1, user_4]"
    and each: "\<forall>j < length ps. \<exists>i.
              map_of ([user_1, user_4] ! j) ''_id'' = Some (ObjId i) \<and>
              map_of (ps ! j) ''id'' = Some (Plain (Str (str_oid i))) \<and>
              map_of (ps ! j) ''status'' =
                Some (case find_cursor (store_D ''driverstatus'') [(''user_id'', Str (str_oid i))] of
                        [] \<Rightarrow> Plain Null
                      | st # rest \<Rightarrow> Nested (filter (\<lambda>(k, v). k \<noteq> ''_id'') st))"
    using list_available_drivers_status_first_match [where s = store_D, OF oids] unfolding drivers by blast
  from len have l2: "length ps = 2" by simp
  from each [rule_format, of 0] l2 have "\<exists>i. map_of ([user_1, user_4] ! 0) ''_id'' = Some (ObjId i) \<and>
              map_of (ps ! 0) ''id'' = Some (Plain (Str (str_oid i))) \<and>
              map_of (ps ! 0) ''status'' =
                Some (case find_cursor (store_D ''driverstatus'') [(''user_id'', Str (str_oid i))] of
                        [] \<Rightarrow> Plain Null
                      | st # rest \<Rightarrow> Nested (filter (\<lambda>(k, v). k \<noteq> ''_id'') st))"
    by simp
  then have p0: "map_of (ps ! 0) ''id'' = Some (Plain (Str ''cccccccccccccccccccccc01'')) \<and>
         map_of (ps ! 0) ''status'' =
           Some (Nested [(''user_id'', Str ''cccccccccccccccccccccc01''),
                         (''is_available'', Bool True), (''lat'', Float 1), (''lng'', Float 2),
                         (''created_at'', Datetime 1), (''updated_at'', Datetime 1)])"
    by (auto simp: user_1_def st1) (simp_all add: status_1_def)
  from each [rule_format, of 1] l2 have "\<exists>i. map_of ([user_1, user_4] ! 1) ''_id'' = Some (ObjId i) \<and>
              map_of (ps ! 1) ''id'' = Some (Plain (Str (str_oid i))) \<and>
              map_of (ps ! 1) ''status'' =
                Some (case find_cursor (store_D ''driverstatus'') [(''user_id'', Str (str_oid i))] of
                        [] \<Rightarrow> Plain Null
                      | st # rest \<Rightarrow> Nested (filter (\<lambda>(k, v). k \<noteq> ''_id'') st))"
    by simp
  then have p1: "map_of (ps ! 1) ''id'' = Some (Plain (Str ''cccccccccccccccccccccc04'')) \<and>
         map_of (ps ! 1) ''status'' = Some (Plain Null)"
    by (auto simp: user_4_def st4)
  from oids res l2 p0 p1 show ?thesis by blast
qed

text \<open>
  C6 as stated fails where a driver has two records, as two racing first reports
  leave them: the record stored first is attached, although the second one is the
  more recent (created and updated later).
\<close>

theorem list_available_drivers_older_status_counterexample:
  "fst (list_available_drivers (Some store_race)) =
     Inr [[(''name'', Plain (Str ''Dee'')), (''role'', Plain (Str ''driver'')),
           (''phone'', Plain Null), (''is_active'', Plain (Bool True)),
           (''id'', Plain (Str ''cccccccccccccccccccccc01'')),
           (''status'',
            Nested [(''user_id'', Str ''cccccccccccccccccccccc01''),
                    (''is_available'', Bool True), (''lat'', Float 1), (''lng'', Float 2),
                    (''created_at'', Datetime 1), (''updated_at'', Datetime 1)])],
          [(''name'', Plain (Str ''Dan'')), (''role'', Plain (Str ''driver'')),
           (''phone'', Plain Null), (''is_active'', Plain (Bool True)),
           (''id'', Plain (Str ''cccccccccccccccccccccc04'')),
           (''status'', Plain Null)]] \<and>
   store_race ''driverstatus'' = [status_1, status_2] \<and>
   map_of status_2 ''user_id'' = Some (Str ''cccccccccccccccccccccc01'') \<and>
   map_of status_2 ''is_available'' = Some (Bool False) \<and>
   map_of status_2 ''created_at'' = Some (Datetime 2) \<and>
   map_of status_2 ''updated_at'' = Some (Datetime 2)"
  by (simp add: list_available_drivers_def store_race_def user_1_def user_2_def user_3_def
        user_4_def status_1_def status_2_def find_cursor_def find_one_def matches_def plain_def)

end
